theory Spec2Isabelle
  imports Main "HOL-Library.AList"
begin

section \<open>The runtime type checker of \<^verbatim>\<open>src/Type.js\<close>\<close>

text \<open>
  This theory embeds the type descriptors of \<^verbatim>\<open>src/Type.js\<close> (the first, exporting
  version of the file): the validation method \<^verbatim>\<open>isValid\<close>, the lookup
  \<^verbatim>\<open>subtypeAt\<close>, the wrapping method \<^verbatim>\<open>editValue\<close> with the \<^verbatim>\<open>set\<close> traps of
  the proxies it creates, the callable made by \<^verbatim>\<open>TypedFunction.editValue\<close>, and the
  memoising factories \<^verbatim>\<open>type\<close>, \<^verbatim>\<open>oneOf\<close>, \<^verbatim>\<open>arrayOf\<close>, \<^verbatim>\<open>tupleOf\<close>,
  \<^verbatim>\<open>recordOf\<close>, \<^verbatim>\<open>_null\<close> and \<^verbatim>\<open>func\<close>.

  Conventions of the embedding.
  \<^item> A raised exception is the left summand of a sum type. The module's own
    \<^verbatim>\<open>TypeError\<close> class is raised in four places, kept apart by constructor
    (\<open>NullTypeViolation\<close>, \<open>InvalidShape\<close>, \<open>InvalidArgument\<close>, \<open>InvalidReturn\<close>);
    the engine's built-in errors are \<open>NativeTypeError\<close> and \<open>RangeError\<close>.
    An error carries the values its message interpolates, not the rendered string.
    Output on \<^verbatim>\<open>console.error\<close> is not modelled, but building its message is: a
    template literal converts what it interpolates to a string (\<open>to_str\<close>), which
    raises a native TypeError for a symbol, and \<^verbatim>\<open>undefined.toString()\<close> raises.
    The \<^verbatim>\<open>toString\<close> of a descriptor returns. Where an outcome depends on code
    that the embedding does not hold (a conversion method defined by the program, say)
    the result is \<open>Unmodelled\<close>: the embedding then says nothing about the code.
  \<^item> JavaScript numbers are modelled by integers: \<open>VNum n\<close> is the number \<open>n\<close> for
    \<open>\<bar>n\<bar> \<le> 2\<^sup>5\<^sup>3\<close>, where the doubles are exactly the integers. Other numbers
    (fractions, \<^verbatim>\<open>NaN\<close>, the infinities, \<^verbatim>\<open>-0\<close>) and \<^verbatim>\<open>bigint\<close> are not values
    of the embedding; the number that a string converts to is computed exactly.
  \<^item> A string is a list of characters with codes below 256.
  \<^item> A property key is an array index (\<open>KIdx\<close>, the canonical numeric strings), the
    string \<^verbatim>\<open>"length"\<close> (\<open>KLength\<close>), the name of a method that every object
    inherits from \<^verbatim>\<open>Object.prototype\<close> such as \<^verbatim>\<open>toString\<close> (\<open>KProto\<close>), the name of
    a method of \<^verbatim>\<open>Array.prototype\<close> only, such as \<^verbatim>\<open>push\<close> (\<open>KArrProto\<close>), any other
    string (\<open>KName\<close>), or a symbol created by the program (\<open>KSym\<close>). \<open>KIdx i\<close> is
    an array index for \<open>i < 2\<^sup>3\<^sup>2 - 1\<close> and a name like any other from there on. The
    accessor \<^verbatim>\<open>__proto__\<close>, the inherited property \<^verbatim>\<open>constructor\<close> and the
    well-known symbols are outside the embedding.
  \<^item> Objects hold own data properties only (no accessors), all of them writable and
    enumerable; the \<^verbatim>\<open>length\<close> and \<^verbatim>\<open>name\<close> of a function are not among them.
    An object with \<^verbatim>\<open>String.prototype\<close> on its chain is an ordinary object, without
    the characters and the \<^verbatim>\<open>length\<close> that a \<^verbatim>\<open>String\<close> object made by \<^verbatim>\<open>new\<close>
    owns. A class of the program defines no \<^verbatim>\<open>toString\<close>, no \<^verbatim>\<open>valueOf\<close> and no
    accessor. An object may carry an
    identity (\<open>Some a\<close>); identity is what \<^verbatim>\<open>===\<close> and the keys of a \<^verbatim>\<open>Map\<close> compare.
    An object built by a spread has identity \<open>None\<close>: it is a fresh object that no
    descriptor refers to. A value is a tree: aliasing between the properties of
    different objects is not modelled.
  \<^item> A descriptor is a tree that carries, at each node made by \<^verbatim>\<open>new\<close>, the
    allocation number of that object; two descriptor terms are the same JavaScript
    object exactly when they are equal. The nine static descriptors of \<^verbatim>\<open>Type\<close>
    are constants. Descriptors made by \<^verbatim>\<open>newBaseType\<close> hold an arbitrary
    JavaScript predicate and are outside the embedding.
\<close>

subsection \<open>Keys, literals, functions\<close>

datatype key = KIdx nat | KLength | KName string | KProto string | KArrProto string | KSym nat

text \<open>The values that \<^verbatim>\<open>Primitive.getFor\<close> receives: booleans, numbers, strings, symbols.\<close>

datatype lit = LBool bool | LNum int | LStr string | LSym nat

text \<open>
  Function objects, by identity: the built-in constructors that \<^verbatim>\<open>Type.#known\<close> starts
  with, a user function or class that has a \<^verbatim>\<open>prototype\<close> (\<open>UserFn\<close>), an arrow
  function, which has none (\<open>ArrowFn\<close>), and a built-in method found under an
  inherited name (\<open>NativeFn\<close>), which has no \<^verbatim>\<open>prototype\<close> either.
\<close>

datatype fnref = CBoolean | CNumber | CString | CObject | CArray | CSymbol | CFunction
  | UserFn nat | ArrowFn nat | NativeFn string

subsection \<open>Descriptors\<close>

text \<open>
  \<open>TNull\<close> .. \<open>TFunction\<close> are the static fields \<^verbatim>\<open>Type.null\<close> .. \<^verbatim>\<open>Type.function\<close>;
  \<open>TClass\<close> is the \<^verbatim>\<open>new Type(value => value instanceof typeHint, ...)\<close> of
  \<^verbatim>\<open>Type.getFor\<close>. The first argument of every other constructor is the allocation
  number. An overload \<^verbatim>\<open>{params, return}\<close> is a pair.
\<close>

datatype desc =
    TNull | TUndefined | TBoolean | TNumber | TString | TObject | TArray | TSymbol | TFunction
  | TClass nat fnref
  | Primitive nat lit
  | Instance nat nat
  | OneOf nat "desc list"
  | ArrayOf nat desc
  | TupleOf nat "desc list"
  | RecordOf nat "(key \<times> desc) list"
  | Nullable nat desc
  | TypedFunction nat "(desc list \<times> desc) list"

type_synonym overload = "desc list \<times> desc"

subsection \<open>Values\<close>

text \<open>
  \<open>VObj a cs ps\<close> is a non-array, non-callable object with identity \<open>a\<close>, whose
  prototype chain holds the prototypes of the constructors \<open>cs\<close> (before
  \<^verbatim>\<open>Object.prototype\<close>; a plain object has \<open>cs = []\<close>) and whose own properties are
  \<open>ps\<close>, in insertion order. \<open>VArr a es ps\<close> is an array with elements \<open>es\<close> (a hole
  is \<open>None\<close>) and further own properties \<open>ps\<close>. \<open>VFun\<close> is a function object.
  \<open>VProxy d t\<close> is \<^verbatim>\<open>new Proxy(t, handler)\<close> for the \<^verbatim>\<open>set\<close> handler that the
  \<^verbatim>\<open>editValue\<close> of descriptor \<open>d\<close> builds; \<open>VTyped ovs f ps\<close> is the function that
  \<^verbatim>\<open>TypedFunction.editValue(f)\<close> returns for the overloads \<open>ovs\<close>.
\<close>

datatype val =
    VUndefined | VNull | VBool bool | VNum int | VStr string | VSym nat
  | VObj "nat option" "fnref list" "(key \<times> val) list"
  | VArr "nat option" "val option list" "(key \<times> val) list"
  | VFun "nat option" "(key \<times> val) list"
  | VProxy desc val
  | VTyped "overload list" val "(key \<times> val) list"

text \<open>
  \<open>Unmodelled\<close> marks the places where the outcome depends on something that the
  embedding does not hold: a conversion method that the program defines, the data of
  a wrapper object of a primitive, the kind of a function.
\<close>

datatype err = NullTypeViolation | InvalidShape
  | InvalidArgument val "desc list" | InvalidReturn val "desc list"
  | NativeTypeError | RangeError | Unmodelled

datatype jstype = TyUndefined | TyObject | TyBoolean | TyNumber | TyString | TySymbol | TyFunction

text \<open>\<^verbatim>\<open>typeof value\<close>; a proxy has the type of its target.\<close>

fun typeof :: "val \<Rightarrow> jstype" where
  "typeof VUndefined = TyUndefined"
| "typeof VNull = TyObject"
| "typeof (VBool b) = TyBoolean"
| "typeof (VNum n) = TyNumber"
| "typeof (VStr s) = TyString"
| "typeof (VSym n) = TySymbol"
| "typeof (VObj a cs ps) = TyObject"
| "typeof (VArr a es ps) = TyObject"
| "typeof (VFun a ps) = TyFunction"
| "typeof (VProxy d t) = typeof t"
| "typeof (VTyped ovs f ps) = TyFunction"

text \<open>\<^verbatim>\<open>Array.isArray(value)\<close> looks through proxies.\<close>

fun isArray :: "val \<Rightarrow> bool" where
  "isArray (VArr a es ps) = True"
| "isArray (VProxy d t) = isArray t"
| "isArray v = False"

text \<open>The values that can be the target of \<^verbatim>\<open>new Proxy\<close>: everything but primitives.\<close>

fun is_object :: "val \<Rightarrow> bool" where
  "is_object (VObj a cs ps) = True"
| "is_object (VArr a es ps) = True"
| "is_object (VFun a ps) = True"
| "is_object (VTyped ovs f ps) = True"
| "is_object (VProxy d t) = True"
| "is_object v = False"

text \<open>The constructors whose prototype is on the value's prototype chain.\<close>

fun proto_chain :: "val \<Rightarrow> fnref list" where
  "proto_chain (VObj a cs ps) = cs @ [CObject]"
| "proto_chain (VArr a es ps) = [CArray, CObject]"
| "proto_chain (VFun a ps) = [CFunction, CObject]"
| "proto_chain (VTyped ovs f ps) = [CFunction, CObject]"
| "proto_chain (VProxy d t) = proto_chain t"
| "proto_chain v = []"

text \<open>
  \<^verbatim>\<open>value instanceof c\<close>. An arrow function and a built-in method have no
  \<^verbatim>\<open>prototype\<close>: the operator answers \<^verbatim>\<open>false\<close> for a primitive and raises a
  native TypeError for an object.
\<close>

fun instanceof :: "val \<Rightarrow> fnref \<Rightarrow> err + bool" where
  "instanceof v (ArrowFn a) = (if is_object v then Inl NativeTypeError else Inr False)"
| "instanceof v (NativeFn s) = (if is_object v then Inl NativeTypeError else Inr False)"
| "instanceof v c = Inr (c \<in> set (proto_chain v))"

text \<open>The identity of an object; a proxy is an object of its own, unknown to any registry.\<close>

fun ident :: "val \<Rightarrow> nat option" where
  "ident (VObj a cs ps) = a"
| "ident (VArr a es ps) = a"
| "ident (VFun a ps) = a"
| "ident v = None"

text \<open>\<^verbatim>\<open>this.#value === value\<close> for the literal of a \<^verbatim>\<open>Primitive\<close>.\<close>

fun strict_eq_lit :: "lit \<Rightarrow> val \<Rightarrow> bool" where
  "strict_eq_lit (LBool b) v = (v = VBool b)"
| "strict_eq_lit (LNum n) v = (v = VNum n)"
| "strict_eq_lit (LStr s) v = (v = VStr s)"
| "strict_eq_lit (LSym n) v = (v = VSym n)"

fun elements :: "val \<Rightarrow> val option list" where
  "elements (VArr a es ps) = es"
| "elements (VProxy d t) = elements t"
| "elements v = []"

fun props :: "val \<Rightarrow> (key \<times> val) list" where
  "props (VObj a cs ps) = ps"
| "props (VArr a es ps) = ps"
| "props (VFun a ps) = ps"
| "props (VTyped ovs f ps) = ps"
| "props (VProxy d t) = props t"
| "props v = []"

subsection \<open>Conversions of the engine\<close>

text \<open>
  The string that a value converts to, as far as the embedding knows it: the text
  itself, or \<open>Opaque\<close> for a text that contains the source of a function (which is
  no numeric literal).
\<close>

datatype rendered = Text string | Opaque

text \<open>The decimal digits of an integer, as \<^verbatim>\<open>Number.prototype.toString\<close> gives them.\<close>

function show_nat :: "int \<Rightarrow> string" where
  "show_nat n =
     (if n < 10 then [''0123456789'' ! nat n]
      else show_nat (n div 10) @ [''0123456789'' ! nat (n mod 10)])"
  by pat_completeness auto
termination
  by (relation "measure nat") auto

declare show_nat.simps [simp del]

definition show_int :: "int \<Rightarrow> string" where
  "show_int n = (if n < 0 then CHR ''-'' # show_nat (- n) else show_nat n)"

text \<open>\<^verbatim>\<open>Array.prototype.join\<close> on the converted elements, with the separator \<^verbatim>\<open>","\<close>.\<close>

fun join_texts :: "rendered list \<Rightarrow> rendered" where
  "join_texts [] = Text []"
| "join_texts [t] = t"
| "join_texts (t # ts) =
     (case (t, join_texts ts) of (Text a, Text b) \<Rightarrow> Text (a @ '','' @ b) | _ \<Rightarrow> Opaque)"

text \<open>
  What \<^verbatim>\<open>Get(O, name)\<close> finds for the name of a conversion method: the built-in
  method that the object inherits, or an own property that hides it, which is a
  function of the program or is not callable.
\<close>

datatype found = Builtin | OwnFunction | OwnOther

definition own_method :: "(key \<times> val) list \<Rightarrow> key \<Rightarrow> found" where
  "own_method ps k =
     (case map_of ps k of
        None \<Rightarrow> Builtin
      | Some m \<Rightarrow> if typeof m = TyFunction then OwnFunction else OwnOther)"

text \<open>
  \<^verbatim>\<open>OrdinaryToPrimitive(O, string)\<close> for an object with own properties \<open>ps\<close> whose
  inherited \<^verbatim>\<open>toString\<close> gives \<open>builtin\<close>: \<^verbatim>\<open>toString\<close> is tried first; where it is
  not callable \<^verbatim>\<open>valueOf\<close> is tried, and the inherited \<^verbatim>\<open>valueOf\<close> returns the
  object itself, which is no primitive, so that the conversion raises.
\<close>

definition to_primitive :: "(key \<times> val) list \<Rightarrow> err + rendered \<Rightarrow> err + rendered" where
  "to_primitive ps builtin =
     (case own_method ps (KProto ''toString'') of
        Builtin \<Rightarrow> builtin
      | OwnFunction \<Rightarrow> Inl Unmodelled
      | OwnOther \<Rightarrow>
          (case own_method ps (KProto ''valueOf'') of
             OwnFunction \<Rightarrow> Inl Unmodelled
           | _ \<Rightarrow> Inl NativeTypeError))"

fun is_class :: "fnref \<Rightarrow> bool" where
  "is_class (UserFn n) = True"
| "is_class c = False"

text \<open>
  \<^verbatim>\<open>ToString(value)\<close>, which a template literal and \<^verbatim>\<open>join\<close> apply. A symbol
  does not convert. A plain object and an instance of classes of the program give
  \<^verbatim>\<open>"[object Object]"\<close>; what an object with a built-in constructor on its chain gives
  depends on data that the embedding does not hold. An array joins its elements
  (\<^verbatim>\<open>null\<close>, \<^verbatim>\<open>undefined\<close> and a hole give the empty string) unless an own
  \<^verbatim>\<open>join\<close> hides the method; a function gives its source. A proxy without a
  \<^verbatim>\<open>get\<close> trap converts as its target does.
\<close>

fun to_str :: "val \<Rightarrow> err + rendered"
  and join_elems :: "val option list \<Rightarrow> err + rendered list"
where
  "to_str VUndefined = Inr (Text ''undefined'')"
| "to_str VNull = Inr (Text ''null'')"
| "to_str (VBool b) = Inr (Text (if b then ''true'' else ''false''))"
| "to_str (VNum n) = Inr (Text (show_int n))"
| "to_str (VStr s) = Inr (Text s)"
| "to_str (VSym n) = Inl NativeTypeError"
| "to_str (VObj a cs ps) =
     to_primitive ps
       (if list_all is_class cs then Inr (Text ''[object Object]'') else Inl Unmodelled)"
| "to_str (VArr a es ps) =
     to_primitive ps
       (case own_method ps (KArrProto ''join'') of
          OwnFunction \<Rightarrow> Inl Unmodelled
        | OwnOther \<Rightarrow> Inr (Text ''[object Array]'')
        | Builtin \<Rightarrow> (case join_elems es of Inl e \<Rightarrow> Inl e | Inr ts \<Rightarrow> Inr (join_texts ts)))"
| "to_str (VFun a ps) = to_primitive ps (Inr Opaque)"
| "to_str (VTyped ovs f ps) = to_primitive ps (Inr Opaque)"
| "to_str (VProxy d t) = to_str t"
| "join_elems [] = Inr []"
| "join_elems (e # es) =
     (case (case e of
              None \<Rightarrow> Inr (Text [])
            | Some x \<Rightarrow> if x = VNull \<or> x = VUndefined then Inr (Text []) else to_str x) of
        Inl e \<Rightarrow> Inl e
      | Inr t \<Rightarrow> (case join_elems es of Inl e \<Rightarrow> Inl e | Inr ts \<Rightarrow> Inr (t # ts)))"


text \<open>
  \<^verbatim>\<open>StringToNumber\<close>, as far as an array length needs it. White space (the
  characters below 256 that count as such) is trimmed and the empty string is \<open>0\<close>. A
  literal is hexadecimal, octal or binary after its prefix, without a sign, or
  decimal: an optional sign, digits with an optional fraction, an optional exponent.
  \<open>parse_decimal\<close> gives the digits \<open>m\<close> and the power of ten \<open>x\<close> of the value
  \<open>m \<times> 10\<^sup>x\<close>; \<^verbatim>\<open>Infinity\<close> and everything else are no literal of the embedding's
  interest (they convert to an infinity or to \<^verbatim>\<open>NaN\<close>, no length).
\<close>

definition is_space :: "char \<Rightarrow> bool" where
  "is_space c = (c \<in> set [CHR 0x09, CHR 0x0A, CHR 0x0B, CHR 0x0C, CHR 0x0D, CHR 0x20, CHR 0xA0])"

definition trim :: "string \<Rightarrow> string" where
  "trim s = rev (dropWhile is_space (rev (dropWhile is_space s)))"

definition digit_val :: "char \<Rightarrow> int option" where
  "digit_val c =
     map_of (zip ''0123456789abcdef'' [0, 1, 2, 3, 4, 5, 6, 7, 8, 9, 10, 11, 12, 13, 14, 15]
             @ zip ''ABCDEF'' [10, 11, 12, 13, 14, 15]) c"

definition is_digit :: "int \<Rightarrow> char \<Rightarrow> bool" where
  "is_digit b c = (case digit_val c of Some d \<Rightarrow> d < b | None \<Rightarrow> False)"

definition digits_val :: "int \<Rightarrow> string \<Rightarrow> int" where
  "digits_val b s = foldl (\<lambda>n c. n * b + the (digit_val c)) 0 s"

definition parse_radix :: "int \<Rightarrow> string \<Rightarrow> int option" where
  "parse_radix b s =
     (if s \<noteq> [] \<and> list_all (is_digit b) s then Some (digits_val b s) else None)"

definition parse_exponent :: "string \<Rightarrow> int option" where
  "parse_exponent s =
     (case s of
        [] \<Rightarrow> Some 0
      | c # r \<Rightarrow>
          if c = CHR ''e'' \<or> c = CHR ''E'' then
            (case r of
               [] \<Rightarrow> None
             | d # r' \<Rightarrow>
                 if d = CHR ''-'' then map_option uminus (parse_radix 10 r')
                 else if d = CHR ''+'' then parse_radix 10 r'
                 else parse_radix 10 r)
          else None)"

definition parse_decimal :: "string \<Rightarrow> (int \<times> int) option" where
  "parse_decimal s =
     (let ip = takeWhile (is_digit 10) s;
          r1 = dropWhile (is_digit 10) s;
          fp = (if take 1 r1 = ''.'' then takeWhile (is_digit 10) (drop 1 r1) else []);
          r2 = (if take 1 r1 = ''.'' then dropWhile (is_digit 10) (drop 1 r1) else r1)
      in if ip = [] \<and> fp = [] then None
         else (case parse_exponent r2 of
                 None \<Rightarrow> None
               | Some x \<Rightarrow> Some (digits_val 10 (ip @ fp), x - int (length fp))))"

text \<open>\<open>log2 n\<close> is the exponent \<open>e\<close> with \<open>2\<^sup>e \<le> n < 2\<^sup>e\<^sup>+\<^sup>1\<close>, for \<open>n \<ge> 1\<close>.\<close>

function log2 :: "int \<Rightarrow> nat" where
  "log2 n = (if n < 2 then 0 else Suc (log2 (n div 2)))"
  by pat_completeness auto
termination
  by (relation "measure nat") auto

declare log2.simps [simp del]

text \<open>
  The double nearest to \<open>\<plusminus> m \<times> 10\<^sup>x\<close> (ties to even), if it is an integer in
  \<open>[0, 2\<^sup>3\<^sup>2)\<close>. With \<open>p / q\<close> the magnitude and \<open>n\<close> the integer nearest to it: the
  double is \<open>0\<close> up to \<open>2\<^sup>-\<^sup>1\<^sup>0\<^sup>7\<^sup>5\<close>, half the least positive double; for
  \<open>2\<^sup>e \<le> n < 2\<^sup>e\<^sup>+\<^sup>1\<close> it is \<open>n\<close> within \<open>2\<^sup>e\<^sup>-\<^sup>5\<^sup>3\<close> of \<open>n\<close>, half the distance of two doubles
  there, and within \<open>2\<^sup>e\<^sup>-\<^sup>5\<^sup>4\<close> below a power of two. A negative number other than
  \<^verbatim>\<open>-0\<close> is no length.
\<close>

definition integral_double :: "bool \<Rightarrow> int \<Rightarrow> int \<Rightarrow> nat option" where
  "integral_double negative m x =
     (let p = (if 0 \<le> x then m * 10 ^ nat x else m);
          q = (if 0 \<le> x then 1 else 10 ^ nat (- x));
          n = (2 * p + q) div (2 * q);
          e = log2 n
      in if p = 0 then Some 0
         else if n = 0 then (if p * 2 ^ 1075 \<le> q then Some 0 else None)
         else if negative \<or> 2 ^ 32 \<le> n then None
         else if \<bar>p - n * q\<bar> * (if p < n * q \<and> n = 2 ^ e then 2 ^ 54 else 2 ^ 53) \<le> q * 2 ^ e
         then Some (nat n) else None)"

definition radix_length :: "int \<Rightarrow> string \<Rightarrow> nat option" where
  "radix_length b s =
     (case parse_radix b s of
        Some n \<Rightarrow> if n < 2 ^ 32 then Some (nat n) else None
      | None \<Rightarrow> None)"

text \<open>
  The array length that a string denotes: \<open>Some n\<close> when the string converts to the
  integer \<open>n\<close> in \<open>[0, 2\<^sup>3\<^sup>2)\<close>, \<open>None\<close> when it converts to another number.
\<close>

definition str_to_length :: "string \<Rightarrow> nat option" where
  "str_to_length s =
     (let t = trim s in
      if t = [] then Some 0
      else if take 2 t = ''0x'' \<or> take 2 t = ''0X'' then radix_length 16 (drop 2 t)
      else if take 2 t = ''0o'' \<or> take 2 t = ''0O'' then radix_length 8 (drop 2 t)
      else if take 2 t = ''0b'' \<or> take 2 t = ''0B'' then radix_length 2 (drop 2 t)
      else if take 1 t = ''-'' then
        (case parse_decimal (drop 1 t) of
           None \<Rightarrow> None | Some (m, x) \<Rightarrow> integral_double True m x)
      else
        (case parse_decimal (if take 1 t = ''+'' then drop 1 t else t) of
           None \<Rightarrow> None | Some (m, x) \<Rightarrow> integral_double False m x))"

subsection \<open>Own keys, in the order the engine lists them\<close>

fun is_sym :: "key \<Rightarrow> bool" where
  "is_sym (KSym n) = True"
| "is_sym k = False"

text \<open>The array indices are the canonical numeric strings below \<open>2\<^sup>3\<^sup>2 - 1\<close>.\<close>

fun is_idx :: "key \<Rightarrow> bool" where
  "is_idx (KIdx n) = (int n < 4294967295)"
| "is_idx k = False"

fun idx_of :: "key \<Rightarrow> nat" where
  "idx_of (KIdx n) = n"
| "idx_of k = 0"

text \<open>
  \<^verbatim>\<open>[...Object.getOwnPropertySymbols(o), ...Object.getOwnPropertyNames(o)]\<close>: the
  symbols in insertion order, then the array indices in ascending order, then the other
  strings in insertion order.
\<close>

definition own_order :: "(key \<times> 'a) list \<Rightarrow> (key \<times> 'a) list" where
  "own_order ps =
     filter (\<lambda>p. is_sym (fst p)) ps
     @ sort_key (\<lambda>p. idx_of (fst p)) (filter (\<lambda>p. is_idx (fst p)) ps)
     @ filter (\<lambda>p. \<not> is_sym (fst p) \<and> \<not> is_idx (fst p)) ps"

definition ownKeys :: "(key \<times> 'a) list \<Rightarrow> key list" where
  "ownKeys ps = map fst (own_order ps)"

text \<open>\<^verbatim>\<open>Object.entries(o)\<close> and \<^verbatim>\<open>Object.keys(o)\<close> list the string keys only.\<close>

definition string_keyed :: "(key \<times> 'a) list \<Rightarrow> (key \<times> 'a) list" where
  "string_keyed ps =
     sort_key (\<lambda>p. idx_of (fst p)) (filter (\<lambda>p. is_idx (fst p)) ps)
     @ filter (\<lambda>p. \<not> is_sym (fst p) \<and> \<not> is_idx (fst p)) ps"

text \<open>\<^verbatim>\<open>value[key]\<close> for an own key; a missing property reads \<^verbatim>\<open>undefined\<close>.\<close>

definition own_value :: "(key \<times> val) list \<Rightarrow> key \<Rightarrow> val" where
  "own_value ps k = (case map_of ps k of Some x \<Rightarrow> x | None \<Rightarrow> VUndefined)"

subsection \<open>Array methods whose callback may raise\<close>

text \<open>
  \<^verbatim>\<open>every\<close>, \<^verbatim>\<open>find(...) !== undefined\<close> / \<^verbatim>\<open>some\<close>, and \<^verbatim>\<open>filter\<close> call the
  callback from left to right; \<^verbatim>\<open>every\<close> stops at the first falsy answer and \<^verbatim>\<open>some\<close>
  at the first truthy one; an exception of the callback ends the call.
\<close>

fun everyE :: "('a \<Rightarrow> err + bool) \<Rightarrow> 'a list \<Rightarrow> err + bool" where
  "everyE f [] = Inr True"
| "everyE f (x # xs) =
     (case f x of Inl e \<Rightarrow> Inl e | Inr b \<Rightarrow> if b then everyE f xs else Inr False)"

fun someE :: "('a \<Rightarrow> err + bool) \<Rightarrow> 'a list \<Rightarrow> err + bool" where
  "someE f [] = Inr False"
| "someE f (x # xs) =
     (case f x of Inl e \<Rightarrow> Inl e | Inr b \<Rightarrow> if b then Inr True else someE f xs)"

fun filterE :: "('a \<Rightarrow> err + bool) \<Rightarrow> 'a list \<Rightarrow> err + 'a list" where
  "filterE f [] = Inr []"
| "filterE f (x # xs) =
     (case f x of
        Inl e \<Rightarrow> Inl e
      | Inr b \<Rightarrow> (case filterE f xs of
                   Inl e \<Rightarrow> Inl e
                 | Inr ys \<Rightarrow> Inr (if b then x # ys else ys)))"

lemma everyE_cong [fundef_cong]:
  "xs = ys \<Longrightarrow> (\<And>x. x \<in> set ys \<Longrightarrow> f x = g x) \<Longrightarrow> everyE f xs = everyE g ys"
  by (induction ys arbitrary: xs) (auto split: sum.splits)

lemma someE_cong [fundef_cong]:
  "xs = ys \<Longrightarrow> (\<And>x. x \<in> set ys \<Longrightarrow> f x = g x) \<Longrightarrow> someE f xs = someE g ys"
  by (induction ys arbitrary: xs) (auto split: sum.splits)

text \<open>\<^verbatim>\<open>xs[i]\<close> on a JavaScript array: \<^verbatim>\<open>undefined\<close> (here \<open>None\<close>) out of range.\<close>

fun nth_opt :: "'a list \<Rightarrow> nat \<Rightarrow> 'a option" where
  "nth_opt [] i = None"
| "nth_opt (x # xs) 0 = Some x"
| "nth_opt (x # xs) (Suc i) = nth_opt xs i"

lemma nth_opt_mem: "nth_opt xs i = Some x \<Longrightarrow> x \<in> set xs"
  by (induction xs i rule: nth_opt.induct) auto

lemma size_desc_mem: "t \<in> set ts \<Longrightarrow> size t < Suc (size_list size ts)"
  by (induction ts) auto

lemma size_desc_field:
  "map_of fs k = Some t \<Longrightarrow> size (t::desc) < Suc (size_list (size_prod (\<lambda>x. 0) size) fs)"
  by (induction fs) (auto split: if_splits)

subsection \<open>\<^verbatim>\<open>isValid\<close>\<close>

text \<open>
  One equation per class, in the order of the source. The validation function of
  \<^verbatim>\<open>Type.null\<close> throws. \<^verbatim>\<open>RecordOf.isValid\<close> lets \<^verbatim>\<open>null\<close> pass its first test
  (\<^verbatim>\<open>typeof null\<close> is \<^verbatim>\<open>"object"\<close>) and then asks for the own keys of \<^verbatim>\<open>null\<close>,
  which raises; \<^verbatim>\<open>this.#types[key]\<close> reads a plain object, so an undeclared key of
  kind \<open>KProto\<close> finds the inherited method, on which \<^verbatim>\<open>?.isValid(...)\<close> raises.
  \<^verbatim>\<open>every\<close> skips the holes of an array.
\<close>

function isValid :: "desc \<Rightarrow> val \<Rightarrow> err + bool" where
  "isValid TNull v = Inl NullTypeViolation"
| "isValid TUndefined v = Inr True"
| "isValid TBoolean v =
     (if v = VBool True \<or> v = VBool False then Inr True else instanceof v CBoolean)"
| "isValid TNumber v = (if typeof v = TyNumber then Inr True else instanceof v CNumber)"
| "isValid TString v = (if typeof v = TyString then Inr True else instanceof v CString)"
| "isValid TObject v = Inr (typeof v = TyObject \<and> \<not> isArray v \<and> v \<noteq> VNull)"
| "isValid TArray v = Inr (typeof v = TyObject \<and> isArray v)"
| "isValid TSymbol v = Inr (typeof v = TySymbol)"
| "isValid TFunction v = Inr (typeof v = TyFunction)"
| "isValid (TClass i c) v = instanceof v c"
| "isValid (Primitive i l) v = Inr (strict_eq_lit l v)"
| "isValid (Instance i a) v = Inr (ident v = Some a)"
| "isValid (OneOf i subTypes) v = someE (\<lambda>t. isValid t v) subTypes"
| "isValid (ArrayOf i ty) v =
     (if isArray v
      then everyE (\<lambda>e. case e of None \<Rightarrow> Inr True | Some x \<Rightarrow> isValid ty x) (elements v)
      else Inr False)"
| "isValid (TupleOf i types) v =
     (if isArray v
      then everyE (\<lambda>j. case elements v ! j of
                        None \<Rightarrow> Inr True
                      | Some x \<Rightarrow> (case nth_opt types j of
                                     None \<Rightarrow> Inr False
                                   | Some t \<Rightarrow> isValid t x))
             [0 ..< length (elements v)]
      else Inr False)"
| "isValid (RecordOf i types) v =
     (if typeof v \<noteq> TyObject \<or> isArray v then Inr False
      else if v = VNull then Inl NativeTypeError
      else everyE (\<lambda>k. case map_of types k of
                          Some t \<Rightarrow> isValid t (own_value (props v) k)
                        | None \<Rightarrow> (case k of KProto s \<Rightarrow> Inl NativeTypeError | _ \<Rightarrow> Inr False))
             (ownKeys (props v)))"
| "isValid (Nullable i ty) v = (if v = VNull \<or> v = VUndefined then Inr True else isValid ty v)"
| "isValid (TypedFunction i overloads) v = Inr (typeof v = TyFunction)"
  by pat_completeness auto
termination
  by (relation "measure (\<lambda>(d, v). size d)")
    (auto simp: size_desc_mem size_desc_field dest!: nth_opt_mem)

text \<open>\<^verbatim>\<open>Nullable.initialize()\<close> is \<^verbatim>\<open>return null\<close>, whatever the inner descriptor.\<close>

definition Nullable_initialize :: "desc \<Rightarrow> val" where
  "Nullable_initialize ty = VNull"

subsection \<open>\<^verbatim>\<open>subtypeAt\<close>\<close>

text \<open>
  What a lookup \<^verbatim>\<open>this.#types[index]\<close> can find: a descriptor, nothing, or a value
  that is no descriptor (an inherited method, or the \<^verbatim>\<open>length\<close> of the array of
  types). \<open>SUnion ms\<close> is the \<^verbatim>\<open>OneOf\<close> that \<^verbatim>\<open>oneOf(...)\<close> returns for the distinct
  members \<open>ms\<close>; building it may enter a new entry in the registry of unions, which this
  function does not record.
\<close>

datatype slot = SDesc desc | SUndef | SNativeFn string | SNativeNum nat | SUnion "slot list"

text \<open>\<^verbatim>\<open>types[prop]\<close> where \<^verbatim>\<open>types\<close> is a JavaScript array of descriptors.\<close>

fun array_slot :: "desc list \<Rightarrow> key \<Rightarrow> slot" where
  "array_slot ts (KIdx i) = (case nth_opt ts i of Some t \<Rightarrow> SDesc t | None \<Rightarrow> SUndef)"
| "array_slot ts KLength = SNativeNum (length ts)"
| "array_slot ts (KProto s) = SNativeFn s"
| "array_slot ts (KArrProto s) = SNativeFn s"
| "array_slot ts k = SUndef"

text \<open>\<^verbatim>\<open>types[prop]\<close> where \<^verbatim>\<open>types\<close> is the plain object built by \<^verbatim>\<open>RecordOf\<close>.\<close>

definition object_slot :: "(key \<times> desc) list \<Rightarrow> key \<Rightarrow> slot" where
  "object_slot fs k =
     (case map_of fs k of
        Some t \<Rightarrow> SDesc t
      | None \<Rightarrow> (case k of KProto s \<Rightarrow> SNativeFn s | _ \<Rightarrow> SUndef))"

text \<open>The truthiness that \<^verbatim>\<open>if (! that.#types[prop])\<close> tests.\<close>

fun truthy :: "slot \<Rightarrow> bool" where
  "truthy SUndef = False"
| "truthy (SNativeNum n) = (n \<noteq> 0)"
| "truthy s = True"

text \<open>The members of a \<^verbatim>\<open>Set\<close> built from a list: first occurrences, in order.\<close>

fun dedup :: "'a list \<Rightarrow> 'a list" where
  "dedup [] = []"
| "dedup (x # xs) = x # dedup (filter (\<lambda>y. y \<noteq> x) xs)"

text \<open>
  \<^verbatim>\<open>oneOf(...hints)\<close> on looked-up slots, as \<^verbatim>\<open>type\<close> and \<^verbatim>\<open>OneOf.getFor\<close> treat them:
  no hint gives \<^verbatim>\<open>Type.null\<close>; one hint is normalised alone (\<^verbatim>\<open>undefined\<close> to
  \<^verbatim>\<open>Type.undefined\<close>); several are flattened and deduplicated, and one remaining member
  is returned itself.
\<close>

fun flat_slot :: "slot \<Rightarrow> slot list" where
  "flat_slot (SDesc (OneOf i ts)) = map SDesc ts"
| "flat_slot (SUnion ms) = ms"
| "flat_slot SUndef = [SDesc TUndefined]"
| "flat_slot s = [s]"

definition oneOf_slot :: "slot list \<Rightarrow> slot" where
  "oneOf_slot hs =
     (case hs of
        [] \<Rightarrow> SDesc TNull
      | [h] \<Rightarrow> (case h of SUndef \<Rightarrow> SDesc TUndefined | _ \<Rightarrow> h)
      | _ \<Rightarrow> (case dedup (concat (map flat_slot hs)) of [m] \<Rightarrow> m | ms \<Rightarrow> SUnion ms))"

fun subtypeAt :: "desc \<Rightarrow> key \<Rightarrow> slot" where
  "subtypeAt (OneOf i subTypes) index = oneOf_slot (map (\<lambda>t. subtypeAt t index) subTypes)"
| "subtypeAt (ArrayOf i ty) index = SDesc ty"
| "subtypeAt (TupleOf i types) index = array_slot types index"
| "subtypeAt (RecordOf i types) index = object_slot types index"
| "subtypeAt (Nullable i ty) index = subtypeAt ty index"
| "subtypeAt (TypedFunction i overloads) index =
     (case overloads of
        [ov] \<Rightarrow> (if index = KName ''return'' then SDesc (snd ov) else array_slot (fst ov) index)
      | _ \<Rightarrow> (if index = KName ''return'' then oneOf_slot (map (\<lambda>ov. SDesc (snd ov)) overloads)
              else oneOf_slot (map (\<lambda>ov. array_slot (fst ov) index) overloads)))"
| "subtypeAt d index = SUndef"

text \<open>\<^verbatim>\<open>subt instanceof ArrayOf || subt instanceof TupleOf || subt instanceof RecordOf\<close>.\<close>

fun is_composite :: "slot \<Rightarrow> bool" where
  "is_composite (SDesc (ArrayOf i t)) = True"
| "is_composite (SDesc (TupleOf i ts)) = True"
| "is_composite (SDesc (RecordOf i fs)) = True"
| "is_composite s = False"

subsection \<open>\<^verbatim>\<open>editValue\<close>\<close>

text \<open>
  \<^verbatim>\<open>new Proxy(value, proxyHandler)\<close> raises a native TypeError when \<^verbatim>\<open>value\<close> is not
  an object. \<^verbatim>\<open>OneOf.editValue\<close> returns a value whose \<^verbatim>\<open>typeof\<close> is not
  \<^verbatim>\<open>"object"\<close> unchanged; \<^verbatim>\<open>null\<close> passes that test and reaches \<^verbatim>\<open>new Proxy\<close>.
\<close>

fun editValue :: "desc \<Rightarrow> val \<Rightarrow> err + val" where
  "editValue (OneOf i subTypes) v =
     (if typeof v \<noteq> TyObject then Inr v
      else if is_object v then Inr (VProxy (OneOf i subTypes) v) else Inl NativeTypeError)"
| "editValue (ArrayOf i ty) v =
     (if is_object v then Inr (VProxy (ArrayOf i ty) v) else Inl NativeTypeError)"
| "editValue (TupleOf i types) v =
     (if is_object v then Inr (VProxy (TupleOf i types) v) else Inl NativeTypeError)"
| "editValue (RecordOf i types) v =
     (if is_object v then Inr (VProxy (RecordOf i types) v) else Inl NativeTypeError)"
| "editValue (TypedFunction i overloads) v = Inr (VTyped overloads v [])"
| "editValue d v = Inr v"

subsection \<open>Assignment to an ordinary object\<close>

text \<open>\<^verbatim>\<open>arr[i] = w\<close>: beyond the end the array grows, and the gap is holes.\<close>

definition array_put :: "val option list \<Rightarrow> nat \<Rightarrow> val \<Rightarrow> val option list" where
  "array_put es i w =
     (if i < length es then es[i := Some w]
      else es @ replicate (i - length es) None @ [Some w])"

text \<open>\<^verbatim>\<open>arr.length = n\<close>: the array is cut, or extended by holes.\<close>

definition resize :: "val option list \<Rightarrow> nat \<Rightarrow> val option list" where
  "resize es n = take n es @ replicate (n - length es) None"

text \<open>
  The length that \<^verbatim>\<open>arr.length = w\<close> sets: \<open>w\<close> converted to a number must be an
  integer in \<open>[0, 2\<^sup>3\<^sup>2)\<close>, else a RangeError; a symbol does not convert. An object
  is converted by \<^verbatim>\<open>OrdinaryToPrimitive(O, number)\<close>, which tries \<^verbatim>\<open>valueOf\<close>
  before \<^verbatim>\<open>toString\<close>, and the string it gives is converted in turn.
\<close>

fun to_length :: "val \<Rightarrow> err + nat" where
  "to_length (VNum n) = (if 0 \<le> n \<and> n < 2 ^ 32 then Inr (nat n) else Inl RangeError)"
| "to_length VNull = Inr 0"
| "to_length (VBool b) = Inr (if b then 1 else 0)"
| "to_length VUndefined = Inl RangeError"
| "to_length (VSym n) = Inl NativeTypeError"
| "to_length (VStr s) = (case str_to_length s of Some n \<Rightarrow> Inr n | None \<Rightarrow> Inl RangeError)"
| "to_length v =
     (if own_method (props v) (KProto ''valueOf'') = OwnFunction then Inl Unmodelled
      else (case to_str v of
              Inl e \<Rightarrow> Inl e
            | Inr Opaque \<Rightarrow> Inl RangeError
            | Inr (Text s) \<Rightarrow>
                (case str_to_length s of Some n \<Rightarrow> Inr n | None \<Rightarrow> Inl RangeError)))"

text \<open>
  \<^verbatim>\<open>obj[k] = w\<close> on an object that is no proxy; on a primitive the assignment raises
  (the module is strict code). The result is the object after the assignment. A
  function has a read-only \<^verbatim>\<open>length\<close> and \<^verbatim>\<open>name\<close>; whether its \<^verbatim>\<open>prototype\<close>,
  \<^verbatim>\<open>arguments\<close> and \<^verbatim>\<open>caller\<close> can be assigned depends on the kind of function,
  which is known for the function that \<^verbatim>\<open>TypedFunction.editValue\<close> returns (a
  \<^verbatim>\<open>function\<close> expression in strict code) and not for another one. An object with
  \<^verbatim>\<open>String.prototype\<close> or \<^verbatim>\<open>Function.prototype\<close> on its chain finds these read-only
  properties there.
\<close>

fun put_own :: "val \<Rightarrow> key \<Rightarrow> val \<Rightarrow> err + val" where
  "put_own (VObj a cs ps) k w =
     (if CString \<in> set cs \<and> k = KLength then Inl NativeTypeError
      else if CFunction \<in> set cs
              \<and> k \<in> set [KLength, KName ''name'', KName ''arguments'', KName ''caller'']
      then Inl NativeTypeError
      else Inr (VObj a cs (AList.update k w ps)))"
| "put_own (VArr a es ps) k w =
     (case k of
        KIdx i \<Rightarrow>
          if int i < 4294967295 then Inr (VArr a (array_put es i w) ps)
          else Inr (VArr a es (AList.update k w ps))
      | KLength \<Rightarrow>
          (case to_length w of Inl e \<Rightarrow> Inl e | Inr n \<Rightarrow> Inr (VArr a (resize es n) ps))
      | _ \<Rightarrow> Inr (VArr a es (AList.update k w ps)))"
| "put_own (VFun a ps) k w =
     (if k = KLength \<or> k = KName ''name'' then Inl NativeTypeError
      else if k \<in> set [KName ''prototype'', KName ''arguments'', KName ''caller'']
      then Inl Unmodelled
      else Inr (VFun a (AList.update k w ps)))"
| "put_own (VTyped ovs f ps) k w =
     (if k \<in> set [KLength, KName ''name'', KName ''arguments'', KName ''caller'']
      then Inl NativeTypeError
      else Inr (VTyped ovs f (AList.update k w ps)))"
| "put_own v k w = Inl NativeTypeError"

text \<open>The value of an own property, read through proxies (no handler has a \<^verbatim>\<open>get\<close> trap).\<close>

fun get_own :: "val \<Rightarrow> key \<Rightarrow> val option" where
  "get_own (VObj a cs ps) k = map_of ps k"
| "get_own (VArr a es ps) k =
     (case k of
        KIdx i \<Rightarrow>
          if int i < 4294967295 then (if i < length es then es ! i else None) else map_of ps k
      | KLength \<Rightarrow> Some (VNum (int (length es)))
      | _ \<Rightarrow> map_of ps k)"
| "get_own (VFun a ps) k = map_of ps k"
| "get_own (VTyped ovs f ps) k = map_of ps k"
| "get_own (VProxy d t) k = get_own t k"
| "get_own v k = None"

subsection \<open>The \<^verbatim>\<open>set\<close> traps\<close>

text \<open>\<^verbatim>\<open>[...obj]\<close>: the elements in order, a hole read as \<^verbatim>\<open>undefined\<close>.\<close>

definition spread :: "val \<Rightarrow> val list" where
  "spread obj = map (\<lambda>e. case e of None \<Rightarrow> VUndefined | Some x \<Rightarrow> x) (elements obj)"

text \<open>
  The \<^verbatim>\<open>newObject\<close> of \<^verbatim>\<open>OneOf\<close>'s trap: for an array \<^verbatim>\<open>[...obj]\<close> followed by
  \<^verbatim>\<open>newObject[prop] = value\<close>, else \<^verbatim>\<open>{...obj, [prop]: value}\<close>.
\<close>

definition shallow_copy :: "val \<Rightarrow> key \<Rightarrow> val \<Rightarrow> err + val" where
  "shallow_copy obj prop v =
     (if isArray obj then put_own (VArr None (map Some (spread obj)) []) prop v
      else Inr (VObj None [] (AList.update prop v (props obj))))"

text \<open>
  \<^verbatim>\<open>that.#types[prop].isValid(value)\<close> and \<^verbatim>\<open>.editValue(value)\<close> on a looked-up slot
  that the guard found truthy: a value that is no descriptor has no such method.
\<close>

fun slot_isValid :: "slot \<Rightarrow> val \<Rightarrow> err + bool" where
  "slot_isValid (SDesc t) v = isValid t v"
| "slot_isValid s v = Inl NativeTypeError"

fun slot_editValue :: "slot \<Rightarrow> val \<Rightarrow> err + val" where
  "slot_editValue (SDesc t) v = editValue t v"
| "slot_editValue s v = Inl NativeTypeError"

text \<open>
  A trap takes the target \<^verbatim>\<open>obj\<close>, the key and the value, and returns what the handler
  returns (or raises) together with the target afterwards. \<open>put_prop\<close> is the assignment
  \<^verbatim>\<open>obj[prop] = w\<close> on any object: on a proxy it runs the trap, and a trap that answers
  \<^verbatim>\<open>false\<close> makes the assignment raise a native TypeError, the module being strict
  code. The first \<^verbatim>\<open>filter\<close> of \<^verbatim>\<open>OneOf\<close>'s trap is kept although its result is
  overwritten: its callbacks run and may raise. Before a trap answers \<^verbatim>\<open>false\<close> it
  builds a message: those that interpolate \<^verbatim>\<open>${prop}\<close> raise for a symbol key, and
  the message of an ambiguous write calls \<^verbatim>\<open>t.subtypeAt(prop).toString()\<close> on every
  compatible member, which raises where \<^verbatim>\<open>subtypeAt\<close> gave \<^verbatim>\<open>undefined\<close>.
\<close>

function (sequential) put_prop :: "val \<Rightarrow> key \<Rightarrow> val \<Rightarrow> err + val"
  and OneOf_set :: "desc list \<Rightarrow> val \<Rightarrow> key \<Rightarrow> val \<Rightarrow> (err + bool) \<times> val"
  and ArrayOf_set :: "desc \<Rightarrow> val \<Rightarrow> key \<Rightarrow> val \<Rightarrow> (err + bool) \<times> val"
  and TupleOf_set :: "desc list \<Rightarrow> val \<Rightarrow> key \<Rightarrow> val \<Rightarrow> (err + bool) \<times> val"
  and RecordOf_set :: "(key \<times> desc) list \<Rightarrow> val \<Rightarrow> key \<Rightarrow> val \<Rightarrow> (err + bool) \<times> val"
  and proxy_set :: "desc \<Rightarrow> val \<Rightarrow> key \<Rightarrow> val \<Rightarrow> (err + bool) \<times> val"
where
  "put_prop (VProxy d t) k w =
     (case proxy_set d t k w of
        (Inl e, t') \<Rightarrow> Inl e
      | (Inr ok, t') \<Rightarrow> if ok then Inr (VProxy d t') else Inl NativeTypeError)"
| "put_prop obj k w = put_own obj k w"
| "proxy_set (OneOf i ts) obj k w = OneOf_set ts obj k w"
| "proxy_set (ArrayOf i t) obj k w = ArrayOf_set t obj k w"
| "proxy_set (TupleOf i ts) obj k w = TupleOf_set ts obj k w"
| "proxy_set (RecordOf i fs) obj k w = RecordOf_set fs obj k w"
| "proxy_set d obj k w =
     (case put_prop obj k w of Inl e \<Rightarrow> (Inl e, obj) | Inr obj' \<Rightarrow> (Inr True, obj'))"
| "OneOf_set subTypes obj prop v =
     (case filterE (\<lambda>t. isValid t v) subTypes of
        Inl e \<Rightarrow> (Inl e, obj)
      | Inr possibleTypes \<Rightarrow>
          (case shallow_copy obj prop v of
             Inl e \<Rightarrow> (Inl e, obj)
           | Inr newObject \<Rightarrow>
               (case filterE (\<lambda>t. isValid t newObject) subTypes of
                  Inl e \<Rightarrow> (Inl e, obj)
                | Inr compatibleTypes \<Rightarrow>
                    if compatibleTypes = []
                    then (if is_sym prop then Inl NativeTypeError else Inr False, obj)
                    else if \<not> list_ex (\<lambda>t. is_composite (subtypeAt t prop)) compatibleTypes
                    then (case put_prop obj prop v of
                            Inl e \<Rightarrow> (Inl e, obj)
                          | Inr obj' \<Rightarrow> (Inr True, obj'))
                    else (if is_sym prop
                             \<or> list_ex (\<lambda>t. subtypeAt t prop = SUndef) compatibleTypes
                          then Inl NativeTypeError else Inr False, obj))))"
| "ArrayOf_set ty obj prop v =
     (case isValid ty v of
        Inl e \<Rightarrow> (Inl e, obj)
      | Inr ok \<Rightarrow>
          if ok then
            (case editValue ty v of
               Inl e \<Rightarrow> (Inl e, obj)
             | Inr w \<Rightarrow> (case put_prop obj prop w of
                           Inl e \<Rightarrow> (Inl e, obj)
                         | Inr obj' \<Rightarrow> (Inr True, obj')))
          else (Inr False, obj))"
| "TupleOf_set types obj prop v =
     (if \<not> truthy (array_slot types prop)
      then (if is_sym prop then Inl NativeTypeError else Inr False, obj)
      else (case slot_isValid (array_slot types prop) v of
              Inl e \<Rightarrow> (Inl e, obj)
            | Inr ok \<Rightarrow>
                if ok then
                  (case slot_editValue (array_slot types prop) v of
                     Inl e \<Rightarrow> (Inl e, obj)
                   | Inr w \<Rightarrow> (case put_prop obj prop w of
                                 Inl e \<Rightarrow> (Inl e, obj)
                               | Inr obj' \<Rightarrow> (Inr True, obj')))
                else (Inr False, obj)))"
| "RecordOf_set types obj prop v =
     (if \<not> truthy (object_slot types prop)
      then (if is_sym prop then Inl NativeTypeError else Inr False, obj)
      else (case slot_isValid (object_slot types prop) v of
              Inl e \<Rightarrow> (Inl e, obj)
            | Inr ok \<Rightarrow>
                if ok then
                  (case slot_editValue (object_slot types prop) v of
                     Inl e \<Rightarrow> (Inl e, obj)
                   | Inr w \<Rightarrow> (case put_prop obj prop w of
                                 Inl e \<Rightarrow> (Inl e, obj)
                               | Inr obj' \<Rightarrow> (Inr True, obj')))
                else (Inr False, obj)))"
  by pat_completeness auto
termination
  by (relation "measure (\<lambda>x. case x of
        Inl (Inl (obj, k, w)) \<Rightarrow> 3 * size obj
      | Inl (Inr (Inl (ts, obj, k, w))) \<Rightarrow> 3 * size obj + 1
      | Inl (Inr (Inr (t, obj, k, w))) \<Rightarrow> 3 * size obj + 1
      | Inr (Inl (ts, obj, k, w)) \<Rightarrow> 3 * size obj + 1
      | Inr (Inr (Inl (fs, obj, k, w))) \<Rightarrow> 3 * size obj + 1
      | Inr (Inr (Inr (d, obj, k, w))) \<Rightarrow> 3 * size obj + 2)")
    auto

declare OneOf_set.simps [simp del] ArrayOf_set.simps [simp del] TupleOf_set.simps [simp del]
  RecordOf_set.simps [simp del]

subsection \<open>The function returned by \<^verbatim>\<open>TypedFunction.editValue\<close>\<close>





section \<open>The registries and the factories\<close>

subsection \<open>Hints\<close>

text \<open>
  A hint is any JavaScript value handed to a factory: \<^verbatim>\<open>null\<close>, \<^verbatim>\<open>undefined\<close>, a
  literal, a function that has a \<^verbatim>\<open>prototype\<close> (\<open>HFn\<close>: a built-in constructor or a
  class), an arrow function (\<open>HArrow a h\<close>: its identity, and the hint it returns when
  called without arguments), a descriptor, an array literal, a plain object literal
  (\<open>HObj\<close>), or another object (\<open>HInst\<close>). Objects carry their identity. Array hints
  are dense and have no further properties.
\<close>

datatype hint =
    HNull | HUndefined | HLit lit | HFn fnref | HArrow nat hint | HDesc desc
  | HArr nat "hint list"
  | HObj nat "(key \<times> hint) list"
  | HInst nat "(key \<times> hint) list"

text \<open>What a \<^verbatim>\<open>Map\<close> compares of a key: the value of a primitive, the identity of an object.\<close>

datatype hk = KeyNull | KeyUndefined | KeyLit lit | KeyFn fnref | KeyDesc desc | KeyRef nat

fun hkey :: "hint \<Rightarrow> hk" where
  "hkey HNull = KeyNull"
| "hkey HUndefined = KeyUndefined"
| "hkey (HLit l) = KeyLit l"
| "hkey (HFn f) = KeyFn f"
| "hkey (HArrow a h) = KeyFn (ArrowFn a)"
| "hkey (HDesc d) = KeyDesc d"
| "hkey (HArr a hs) = KeyRef a"
| "hkey (HObj a fs) = KeyRef a"
| "hkey (HInst a fs) = KeyRef a"

fun hint_typeof :: "hint \<Rightarrow> jstype" where
  "hint_typeof HNull = TyObject"
| "hint_typeof HUndefined = TyUndefined"
| "hint_typeof (HLit (LBool b)) = TyBoolean"
| "hint_typeof (HLit (LNum n)) = TyNumber"
| "hint_typeof (HLit (LStr s)) = TyString"
| "hint_typeof (HLit (LSym n)) = TySymbol"
| "hint_typeof (HFn f) = TyFunction"
| "hint_typeof (HArrow a h) = TyFunction"
| "hint_typeof (HDesc d) = TyObject"
| "hint_typeof (HArr a hs) = TyObject"
| "hint_typeof (HObj a fs) = TyObject"
| "hint_typeof (HInst a fs) = TyObject"

text \<open>
  \<^verbatim>\<open>Object.entries(obj)\<close>: it raises on \<^verbatim>\<open>null\<close>; a descriptor has private fields
  only, hence no entry.
\<close>

fun hint_entries :: "hint \<Rightarrow> err + (key \<times> hint) list" where
  "hint_entries HNull = Inl NativeTypeError"
| "hint_entries (HArr a hs) = Inr (zip (map KIdx [0 ..< length hs]) hs)"
| "hint_entries (HObj a fs) = Inr (string_keyed fs)"
| "hint_entries (HInst a fs) = Inr (string_keyed fs)"
| "hint_entries h = Inr []"

text \<open>
  \<^verbatim>\<open>obj2[key]\<close>: an own property, else what the prototype chain gives under that key.
  The members that the class of an \<open>HInst\<close> or of a descriptor adds to its chain are
  not modelled.
\<close>

definition inherited :: "key \<Rightarrow> hint" where
  "inherited k = (case k of KProto s \<Rightarrow> HFn (NativeFn s) | _ \<Rightarrow> HUndefined)"

fun hint_get :: "hint \<Rightarrow> key \<Rightarrow> hint" where
  "hint_get (HArr a hs) k =
     (case k of
        KIdx i \<Rightarrow> (case nth_opt hs i of Some h \<Rightarrow> h | None \<Rightarrow> HUndefined)
      | KLength \<Rightarrow> HLit (LNum (int (length hs)))
      | KArrProto s \<Rightarrow> HFn (NativeFn s)
      | _ \<Rightarrow> inherited k)"
| "hint_get (HObj a fs) k = (case map_of fs k of Some h \<Rightarrow> h | None \<Rightarrow> inherited k)"
| "hint_get (HInst a fs) k = (case map_of fs k of Some h \<Rightarrow> h | None \<Rightarrow> inherited k)"
| "hint_get h k = inherited k"

lemma size_hint_mem: "h \<in> set hs \<Longrightarrow> size h < Suc (size_list size hs)"
  by (induction hs) auto

lemma size_hint_field:
  "(k, h) \<in> set fs \<Longrightarrow> size (h::hint) < Suc (size_list (size_prod (\<lambda>x. 0) size) fs)"
  by (induction fs) auto

lemma hint_entries_size:
  "hint_entries h = Inr es \<Longrightarrow> (k, x) \<in> set es \<Longrightarrow> size x < size h"
proof (cases h)
  case (HArr a hs)
  assume "hint_entries h = Inr es" "(k, x) \<in> set es"
  with HArr have "x \<in> set hs" by (auto dest: set_zip_rightD)
  with HArr show ?thesis by (simp add: size_hint_mem)
next
  case (HObj a fs)
  assume "hint_entries h = Inr es" "(k, x) \<in> set es"
  with HObj have "(k, x) \<in> set fs" by (auto simp: string_keyed_def)
  with HObj show ?thesis by (simp add: size_hint_field)
next
  case (HInst a fs)
  assume "hint_entries h = Inr es" "(k, x) \<in> set es"
  with HInst have "(k, x) \<in> set fs" by (auto simp: string_keyed_def)
  with HInst show ?thesis by (simp add: size_hint_field)
qed auto

text \<open>
  \<^verbatim>\<open>deepEqual\<close>. Two values of the same \<^verbatim>\<open>typeof\<close> other than \<^verbatim>\<open>"object"\<close> are
  equal for it; only the keys of \<^verbatim>\<open>obj1\<close> are visited.
\<close>

function deepEqual :: "hint \<Rightarrow> hint \<Rightarrow> err + bool" where
  "deepEqual obj1 obj2 =
     (if hkey obj1 = hkey obj2 then Inr True
      else if hint_typeof obj1 \<noteq> hint_typeof obj2 then Inr False
      else if hint_typeof obj1 = TyObject then
        (case hint_entries obj1 of
           Inl e \<Rightarrow> Inl e
         | Inr es1 \<Rightarrow>
             (case hint_entries obj2 of
                Inl e \<Rightarrow> Inl e
              | Inr es2 \<Rightarrow>
                  if length es1 \<noteq> length es2 then Inr False
                  else everyE (\<lambda>p. deepEqual (snd p) (hint_get obj2 (fst p))) es1))
      else Inr True)"
  by pat_completeness auto
termination
  by (relation "measure (\<lambda>(a, b). size a)") (auto dest: hint_entries_size)

declare deepEqual.simps [simp del]

subsection \<open>The registries\<close>

text \<open>
  \<^verbatim>\<open>TupleOf.#known\<close>: a \<^verbatim>\<open>Map\<close> per position, keyed by the raw hints, and the tuple
  stored under the private symbol \<^verbatim>\<open>#leaf\<close> of the last map.
\<close>

datatype tmap = TMap "(hk \<times> tmap) list" "desc option"

fun tmap_find :: "tmap \<Rightarrow> hk list \<Rightarrow> desc option" where
  "tmap_find (TMap cs leaf) [] = leaf"
| "tmap_find (TMap cs leaf) (k # ks) =
     (case map_of cs k of None \<Rightarrow> None | Some m \<Rightarrow> tmap_find m ks)"

fun tmap_set :: "tmap \<Rightarrow> hk list \<Rightarrow> desc \<Rightarrow> tmap" where
  "tmap_set (TMap cs leaf) [] d = TMap cs (Some d)"
| "tmap_set (TMap cs leaf) (k # ks) d =
     TMap (AList.update k
             (tmap_set (case map_of cs k of None \<Rightarrow> TMap [] None | Some m \<Rightarrow> m) ks d) cs)
          leaf"

text \<open>
  The static \<^verbatim>\<open>#known\<close> maps of the classes, in insertion order, and the allocation
  counter. \<open>Type_known\<close> holds the entries that \<^verbatim>\<open>Type.getFor\<close> adds to
  \<^verbatim>\<open>Type.#known\<close>; its nine initial entries never change and are \<open>builtin_known\<close>
  and the first equations of \<open>Type_getFor\<close>. A key of \<open>OneOf_known\<close> is a
  \<^verbatim>\<open>ComparableSet\<close>, its members in insertion order.
\<close>

record registry =
  next_id :: nat
  Type_known :: "(fnref \<times> desc) list"
  Primitive_known :: "(lit \<times> desc) list"
  Instance_known :: "(nat \<times> desc) list"
  OneOf_known :: "(desc list \<times> desc) list"
  ArrayOf_known :: "(desc \<times> desc) list"
  TupleOf_known :: tmap
  RecordOf_known :: "(hint \<times> desc) list"
  Nullable_known :: "(desc \<times> desc) list"
  TypedFunction_known :: "(overload list \<times> desc) list"

text \<open>The registries when the module has just been loaded.\<close>

definition registry0 :: registry where
  "registry0 = \<lparr> next_id = 0, Type_known = [], Primitive_known = [], Instance_known = [],
     OneOf_known = [], ArrayOf_known = [], TupleOf_known = TMap [] None, RecordOf_known = [],
     Nullable_known = [], TypedFunction_known = [] \<rparr>"

text \<open>
  A factory call reads and extends the registries: it takes their state and returns
  the descriptor with the new state, or the error it raises.
\<close>

type_synonym 'a reg = "registry \<Rightarrow> err + 'a \<times> registry"

fun sequence :: "'a reg list \<Rightarrow> 'a list reg" where
  "sequence [] s = Inr ([], s)"
| "sequence (m # ms) s =
     (case m s of
        Inl e \<Rightarrow> Inl e
      | Inr (x, s1) \<Rightarrow>
          (case sequence ms s1 of Inl e \<Rightarrow> Inl e | Inr (xs, s2) \<Rightarrow> Inr (x # xs, s2)))"

fun builtin_known :: "fnref \<Rightarrow> desc option" where
  "builtin_known CBoolean = Some TBoolean"
| "builtin_known CNumber = Some TNumber"
| "builtin_known CString = Some TString"
| "builtin_known CObject = Some TObject"
| "builtin_known CArray = Some TArray"
| "builtin_known CSymbol = Some TSymbol"
| "builtin_known CFunction = Some TFunction"
| "builtin_known f = None"

subsection \<open>\<^verbatim>\<open>getFor\<close>\<close>

text \<open>
  The branch \<^verbatim>\<open>typeof typeHint === "function"\<close> of \<^verbatim>\<open>Type.getFor\<close>, reached when
  \<^verbatim>\<open>Type.#known\<close> has no entry for the function.
\<close>

definition class_getFor :: "fnref \<Rightarrow> desc reg" where
  "class_getFor f s =
     (case map_of (Type_known s) f of
        Some d \<Rightarrow> Inr (d, s)
      | None \<Rightarrow>
          (let d = TClass (next_id s) f
           in Inr (d, s\<lparr>next_id := Suc (next_id s), Type_known := Type_known s @ [(f, d)]\<rparr>)))"

definition Primitive_getFor :: "lit \<Rightarrow> desc reg" where
  "Primitive_getFor l s =
     (case map_of (Primitive_known s) l of
        Some d \<Rightarrow> Inr (d, s)
      | None \<Rightarrow>
          (let d = Primitive (next_id s) l
           in Inr (d, s\<lparr>next_id := Suc (next_id s),
                        Primitive_known := Primitive_known s @ [(l, d)]\<rparr>)))"

definition Instance_getFor :: "nat \<Rightarrow> desc reg" where
  "Instance_getFor a s =
     (case map_of (Instance_known s) a of
        Some d \<Rightarrow> Inr (d, s)
      | None \<Rightarrow>
          (let d = Instance (next_id s) a
           in Inr (d, s\<lparr>next_id := Suc (next_id s),
                        Instance_known := Instance_known s @ [(a, d)]\<rparr>)))"

text \<open>
  \<^verbatim>\<open>TupleOf.getFor\<close>, given the keys of the raw hints and, for each hint, the call
  \<^verbatim>\<open>type(t)\<close> that the constructor makes. The source creates the maps along the path
  before it runs the constructor and stores the leaf afterwards; since no call removes
  an entry, the final registry is the one built here. A call that raises returns no
  registry: what it had entered before raising is not tracked.
\<close>

definition TupleOf_getFor_with :: "hk list \<Rightarrow> desc reg list \<Rightarrow> desc reg" where
  "TupleOf_getFor_with keys children s =
     (case tmap_find (TupleOf_known s) keys of
        Some d \<Rightarrow> Inr (d, s)
      | None \<Rightarrow>
          (case sequence children s of
             Inl e \<Rightarrow> Inl e
           | Inr (ts, s1) \<Rightarrow>
               (let d = TupleOf (next_id s1) ts
                in Inr (d, s1\<lparr>next_id := Suc (next_id s1),
                              TupleOf_known := tmap_set (TupleOf_known s1) keys d\<rparr>))))"

text \<open>The loop of \<^verbatim>\<open>RecordOf.getFor\<close> over \<^verbatim>\<open>this.#known.entries()\<close>.\<close>

fun find_shape :: "(hint \<times> desc) list \<Rightarrow> hint \<Rightarrow> err + desc option" where
  "find_shape [] shape = Inr None"
| "find_shape ((key, value) # rest) shape =
     (case deepEqual key shape of
        Inl e \<Rightarrow> Inl e
      | Inr b \<Rightarrow> if b then Inr (Some value) else find_shape rest shape)"

text \<open>
  \<^verbatim>\<open>RecordOf.getFor\<close> after its argument check, given for each own key of the shape
  the call \<^verbatim>\<open>type(types[key])\<close> of the constructor (or the error of listing the keys).
\<close>

definition RecordOf_getFor_with :: "hint \<Rightarrow> (err + (key \<times> desc reg) list) \<Rightarrow> desc reg" where
  "RecordOf_getFor_with shape children s =
     (case find_shape (RecordOf_known s) shape of
        Inl e \<Rightarrow> Inl e
      | Inr (Some d) \<Rightarrow> Inr (d, s)
      | Inr None \<Rightarrow>
          (case children of
             Inl e \<Rightarrow> Inl e
           | Inr fs \<Rightarrow>
               (case sequence (map snd fs) s of
                  Inl e \<Rightarrow> Inl e
                | Inr (ts, s1) \<Rightarrow>
                    (let d = RecordOf (next_id s1) (zip (map fst fs) ts)
                     in Inr (d, s1\<lparr>next_id := Suc (next_id s1),
                                   RecordOf_known := RecordOf_known s1 @ [(shape, d)]\<rparr>)))))"

lemma own_order_mem: "p \<in> set (own_order ps) \<Longrightarrow> p \<in> set ps"
  by (auto simp: own_order_def)

text \<open>
  \<^verbatim>\<open>Type.getFor\<close>. A descriptor is returned as it is; \<^verbatim>\<open>Type.#known\<close> answers for
  \<^verbatim>\<open>null\<close>, \<^verbatim>\<open>undefined\<close>, the built-in constructors and the functions seen before;
  an array goes to \<^verbatim>\<open>TupleOf.getFor(...typeHint)\<close>, a plain object to
  \<^verbatim>\<open>RecordOf.getFor\<close>, another object to \<^verbatim>\<open>Instance.getFor\<close>, a new function gets
  an \<^verbatim>\<open>instanceof\<close> descriptor, and anything else goes to \<^verbatim>\<open>Primitive.getFor\<close>.
\<close>

function Type_getFor :: "hint \<Rightarrow> desc reg" where
  "Type_getFor (HDesc d) = (\<lambda>s. Inr (d, s))"
| "Type_getFor HNull = (\<lambda>s. Inr (TNull, s))"
| "Type_getFor HUndefined = (\<lambda>s. Inr (TUndefined, s))"
| "Type_getFor (HFn f) =
     (case builtin_known f of Some d \<Rightarrow> (\<lambda>s. Inr (d, s)) | None \<Rightarrow> class_getFor f)"
| "Type_getFor (HArrow a h) = class_getFor (ArrowFn a)"
| "Type_getFor (HArr a hs) = TupleOf_getFor_with (map hkey hs) (map Type_getFor hs)"
| "Type_getFor (HObj a fs) =
     RecordOf_getFor_with (HObj a fs)
       (Inr (map (\<lambda>p. (fst p, Type_getFor (snd p))) (own_order fs)))"
| "Type_getFor (HInst a fs) = Instance_getFor a"
| "Type_getFor (HLit l) = Primitive_getFor l"
  by pat_completeness auto
termination
  by (relation "measure size") (auto simp: size_hint_mem size_hint_field dest!: own_order_mem)

text \<open>\<^verbatim>\<open>ComparableSet.equals\<close> for two sets that are not the same object.\<close>

definition set_equals :: "desc list \<Rightarrow> desc list \<Rightarrow> bool" where
  "set_equals this other =
     (length this = length other \<and> list_all (\<lambda>v. List.member other v) this)"

text \<open>\<^verbatim>\<open>t instanceof OneOf ? t.#subTypes : type(t)\<close>, before \<^verbatim>\<open>.flat()\<close>.\<close>

definition OneOf_member :: "hint \<Rightarrow> desc list reg" where
  "OneOf_member t s =
     (case t of
        HDesc (OneOf i subTypes) \<Rightarrow> Inr (subTypes, s)
      | _ \<Rightarrow> (case Type_getFor t s of Inl e \<Rightarrow> Inl e | Inr (d, s1) \<Rightarrow> Inr ([d], s1)))"

definition OneOf_getFor :: "hint list \<Rightarrow> desc reg" where
  "OneOf_getFor hints s =
     (case sequence (map OneOf_member hints) s of
        Inl e \<Rightarrow> Inl e
      | Inr (mss, s1) \<Rightarrow>
          (let types = dedup (concat mss) in
           case types of
             [t] \<Rightarrow> Inr (t, s1)
           | _ \<Rightarrow>
               (case find (\<lambda>p. set_equals types (fst p)) (OneOf_known s1) of
                  Some p \<Rightarrow> Inr (snd p, s1)
                | None \<Rightarrow>
                    (let d = OneOf (next_id s1) types
                     in Inr (d, s1\<lparr>next_id := Suc (next_id s1),
                                   OneOf_known := OneOf_known s1 @ [(types, d)]\<rparr>)))))"

text \<open>The exported \<^verbatim>\<open>type\<close> (primed: \<open>type\<close> is no name for a constant here).\<close>

definition type' :: "hint list \<Rightarrow> desc reg" where
  "type' typeHints =
     (case typeHints of
        [] \<Rightarrow> Type_getFor HNull
      | [h] \<Rightarrow> Type_getFor h
      | _ \<Rightarrow> OneOf_getFor typeHints)"

definition oneOf :: "hint list \<Rightarrow> desc reg" where
  "oneOf typeHints = type' typeHints"

definition ArrayOf_getFor :: "hint list \<Rightarrow> desc reg" where
  "ArrayOf_getFor types s =
     (case type' types s of
        Inl e \<Rightarrow> Inl e
      | Inr (ty, s1) \<Rightarrow>
          (case map_of (ArrayOf_known s1) ty of
             Some d \<Rightarrow> Inr (d, s1)
           | None \<Rightarrow>
               (let d = ArrayOf (next_id s1) ty
                in Inr (d, s1\<lparr>next_id := Suc (next_id s1),
                              ArrayOf_known := ArrayOf_known s1 @ [(ty, d)]\<rparr>))))"

definition arrayOf :: "hint list \<Rightarrow> desc reg" where
  "arrayOf typeHints = ArrayOf_getFor typeHints"

definition TupleOf_getFor :: "hint list \<Rightarrow> desc reg" where
  "TupleOf_getFor types = TupleOf_getFor_with (map hkey types) (map Type_getFor types)"

definition tupleOf :: "hint list \<Rightarrow> desc reg" where
  "tupleOf typesHints = TupleOf_getFor typesHints"

text \<open>
  The own keys that the constructor of \<^verbatim>\<open>RecordOf\<close> lists, with their values; listing
  the keys of \<^verbatim>\<open>null\<close> raises.
\<close>

fun shape_fields :: "hint \<Rightarrow> err + (key \<times> hint) list" where
  "shape_fields HNull = Inl NativeTypeError"
| "shape_fields (HObj a fs) = Inr (own_order fs)"
| "shape_fields (HInst a fs) = Inr (own_order fs)"
| "shape_fields h = Inr []"

definition RecordOf_getFor :: "hint \<Rightarrow> desc reg" where
  "RecordOf_getFor shape s =
     (if hint_typeof shape \<noteq> TyObject \<or> (case shape of HArr a hs \<Rightarrow> True | _ \<Rightarrow> False)
      then Inl InvalidShape
      else RecordOf_getFor_with shape
             (case shape_fields shape of
                Inl e \<Rightarrow> Inl e
              | Inr fs \<Rightarrow> Inr (map (\<lambda>p. (fst p, Type_getFor (snd p))) fs)) s)"

definition recordOf :: "hint \<Rightarrow> desc reg" where
  "recordOf shape = RecordOf_getFor shape"

text \<open>\<^verbatim>\<open>Nullable.getFor(typeHint = null)\<close>: the default replaces \<^verbatim>\<open>undefined\<close>.\<close>

definition Nullable_getFor :: "hint \<Rightarrow> desc reg" where
  "Nullable_getFor typeHint s =
     (case type' [if typeHint = HUndefined then HNull else typeHint] s of
        Inl e \<Rightarrow> Inl e
      | Inr (ty, s1) \<Rightarrow>
          (case map_of (Nullable_known s1) ty of
             Some d \<Rightarrow> Inr (d, s1)
           | None \<Rightarrow>
               (let d = Nullable (next_id s1) ty
                in Inr (d, s1\<lparr>next_id := Suc (next_id s1),
                              Nullable_known := Nullable_known s1 @ [(ty, d)]\<rparr>))))"

text \<open>The exported \<^verbatim>\<open>_null\<close>.\<close>

definition null' :: "hint \<Rightarrow> desc reg" where
  "null' typeHint = Nullable_getFor typeHint"





section \<open>Notions used to state the properties\<close>



section \<open>Auxiliary facts\<close>

lemma everyE_True: "everyE f xs = Inr True \<longleftrightarrow> (\<forall>x\<in>set xs. f x = Inr True)"
  by (induction xs) (auto split: sum.splits)


lemma filterE_Inr_total: "filterE f xs = Inr ys \<Longrightarrow> x \<in> set xs \<Longrightarrow> \<not> isl (f x)"
  by (induction xs arbitrary: ys) (auto split: sum.splits if_splits)

lemma filterE_no_raise:
  "(\<forall>x\<in>set xs. \<not> isl (f x)) \<Longrightarrow> filterE f xs = Inr (filter (\<lambda>x. f x = Inr True) xs)"
  by (induction xs) (auto split: sum.splits simp: isl_def)

lemma filterE_raise: "x \<in> set xs \<Longrightarrow> isl (f x) \<Longrightarrow> isl (filterE f xs)"
  by (induction xs) (auto split: sum.splits simp: isl_def)





subsection \<open>Overload resolution looks at the supplied positions only\<close>





subsection \<open>Assignments change one key\<close>

lemma array_put_other:
  "j \<noteq> i \<Longrightarrow>
   (if j < length (array_put es i w) then array_put es i w ! j else None)
     = (if j < length es then es ! j else None)"
  by (auto simp: array_put_def nth_append)

lemma array_put_same: "i < length (array_put es i w) \<and> array_put es i w ! i = Some w"
  by (auto simp: array_put_def nth_append)

lemma put_own_frame:
  "put_own obj k w = Inr obj' \<Longrightarrow> k' \<noteq> k \<Longrightarrow>
   (isArray obj \<longrightarrow> k \<noteq> KLength \<and> (k' = KLength \<longrightarrow> \<not> is_idx k)) \<Longrightarrow>
   get_own obj' k' = get_own obj k'"
proof (cases obj)
  case (VArr a es ps)
  assume a: "put_own obj k w = Inr obj'" "k' \<noteq> k"
    "isArray obj \<longrightarrow> k \<noteq> KLength \<and> (k' = KLength \<longrightarrow> \<not> is_idx k)"
  show ?thesis
  proof (cases k)
    case (KIdx i)
    show ?thesis
    proof (cases "int i < 4294967295")
      case True
      with a VArr KIdx have "obj' = VArr a (array_put es i w) ps" by auto
      with a VArr KIdx True show ?thesis by (cases k') (auto simp: array_put_other)
    next
      case False
      with a VArr KIdx have "obj' = VArr a es (AList.update k w ps)" by auto
      with a VArr show ?thesis by (cases k') (auto simp: update_conv')
    qed
  next
    case KLength
    with a VArr show ?thesis by simp
  next
    case (KName s)
    with a VArr show ?thesis by (cases k') (auto simp: update_conv')
  next
    case (KProto s)
    with a VArr show ?thesis by (cases k') (auto simp: update_conv')
  next
    case (KArrProto s)
    with a VArr show ?thesis by (cases k') (auto simp: update_conv')
  next
    case (KSym n)
    with a VArr show ?thesis by (cases k') (auto simp: update_conv')
  qed
qed (auto simp: update_conv' split: if_splits)

lemma put_own_stored:
  "put_own obj k w = Inr obj' \<Longrightarrow> (isArray obj \<longrightarrow> k \<noteq> KLength) \<Longrightarrow>
   get_own obj' k = Some w"
proof (cases obj)
  case (VArr a es ps)
  assume a: "put_own obj k w = Inr obj'" "isArray obj \<longrightarrow> k \<noteq> KLength"
  with VArr show ?thesis
    by (cases k) (auto simp: array_put_same update_conv' split: if_splits)
qed (auto simp: update_conv' split: if_splits)

lemma proxy_set_True:
  "proxy_set d t k w = (Inr True, t') \<Longrightarrow> \<exists>w'. put_prop t k w' = Inr t'"
  by (cases d)
    (auto simp: OneOf_set.simps ArrayOf_set.simps TupleOf_set.simps RecordOf_set.simps
      split: sum.splits if_splits prod.splits)

lemma put_prop_not_proxy: "(\<And>d t. obj \<noteq> VProxy d t) \<Longrightarrow> put_prop obj k w = put_own obj k w"
  by (cases obj) auto

lemma put_prop_frame:
  "put_prop obj k w = Inr obj' \<Longrightarrow> k' \<noteq> k \<Longrightarrow>
   (isArray obj \<longrightarrow> k \<noteq> KLength \<and> (k' = KLength \<longrightarrow> \<not> is_idx k)) \<Longrightarrow>
   get_own obj' k' = get_own obj k'"
proof (induction obj arbitrary: w obj' rule: measure_induct_rule[where f = size])
  case (less obj)
  show ?case
  proof (cases "\<exists>d t. obj = VProxy d t")
    case True
    then obtain d t where obj: "obj = VProxy d t" by blast
    with less.prems(1) obtain t' where
      t': "proxy_set d t k w = (Inr True, t')" "obj' = VProxy d t'"
      by (auto split: prod.splits sum.splits if_splits)
    from proxy_set_True[OF t'(1)] obtain w' where "put_prop t k w' = Inr t'" by blast
    from less.IH[OF _ this less.prems(2)] less.prems(3) t'(2) obj show ?thesis by simp
  next
    case False
    then have "put_prop obj k w = put_own obj k w" by (intro put_prop_not_proxy) blast
    with less.prems show ?thesis by (auto dest: put_own_frame)
  qed
qed

lemma put_prop_stored:
  "put_prop obj k w = Inr obj' \<Longrightarrow> (\<And>d t. obj \<noteq> VProxy d t) \<Longrightarrow>
   (isArray obj \<longrightarrow> k \<noteq> KLength) \<Longrightarrow> get_own obj' k = Some w"
  using put_own_stored put_prop_not_proxy by metis

subsection \<open>The length of an array, and writes through a wrapper\<close>

lemma resize_length: "length (resize es n) = n"
  by (simp add: resize_def)

lemma resize_nth: "i < n \<Longrightarrow> resize es n ! i = (if i < length es then es ! i else None)"
  by (auto simp: resize_def nth_append)

lemma array_put_length: "length (array_put es i w) = max (length es) (Suc i)"
  by (auto simp: array_put_def)

lemma put_prop_index_length:
  "put_prop obj (KIdx n) w = Inr obj' \<Longrightarrow> isArray obj \<Longrightarrow> int n < 4294967295 \<Longrightarrow>
   get_own obj' KLength = Some (VNum (int (max (length (elements obj)) (Suc n))))"
proof (induction obj arbitrary: w obj' rule: measure_induct_rule[where f = size])
  case (less obj)
  show ?case
  proof (cases obj)
    case (VProxy d t)
    with less.prems(1) obtain t' where
      t': "proxy_set d t (KIdx n) w = (Inr True, t')" "obj' = VProxy d t'"
      by (auto split: prod.splits sum.splits if_splits)
    from proxy_set_True[OF t'(1)] obtain w' where "put_prop t (KIdx n) w' = Inr t'" by blast
    from less.IH[OF _ this] less.prems(2,3) t'(2) VProxy show ?thesis by simp
  next
    case (VArr a es ps)
    with less.prems show ?thesis by (auto simp: array_put_length)
  qed (use less.prems in auto)
qed

lemma put_prop_length_write:
  "put_prop obj KLength w = Inr obj' \<Longrightarrow> isArray obj \<Longrightarrow>
   \<exists>m. get_own obj' KLength = Some (VNum (int m))
     \<and> ((\<forall>d t. obj \<noteq> VProxy d t) \<longrightarrow> to_length w = Inr m)
     \<and> (\<forall>i. int i < 4294967295 \<longrightarrow>
           get_own obj' (KIdx i) = (if i < m then get_own obj (KIdx i) else None))
     \<and> (\<forall>k. \<not> is_idx k \<and> k \<noteq> KLength \<longrightarrow> get_own obj' k = get_own obj k)"
proof (induction obj arbitrary: w obj' rule: measure_induct_rule[where f = size])
  case (less obj)
  show ?case
  proof (cases obj)
    case (VProxy d t)
    with less.prems(1) obtain t' where
      t': "proxy_set d t KLength w = (Inr True, t')" "obj' = VProxy d t'"
      by (auto split: prod.splits sum.splits if_splits)
    from proxy_set_True[OF t'(1)] obtain w' where "put_prop t KLength w' = Inr t'" by blast
    from less.IH[OF _ this] less.prems(2) VProxy obtain m where
      "get_own t' KLength = Some (VNum (int m))"
      "\<forall>i. int i < 4294967295 \<longrightarrow>
           get_own t' (KIdx i) = (if i < m then get_own t (KIdx i) else None)"
      "\<forall>k. \<not> is_idx k \<and> k \<noteq> KLength \<longrightarrow> get_own t' k = get_own t k"
      by auto
    with t'(2) VProxy show ?thesis by auto
  next
    case (VArr a es ps)
    with less.prems(1) obtain m where m: "to_length w = Inr m" "obj' = VArr a (resize es m) ps"
      by (auto split: sum.splits)
    have "\<forall>k. \<not> is_idx k \<and> k \<noteq> KLength \<longrightarrow> get_own obj' k = get_own obj k"
    proof (intro allI impI)
      fix k assume "\<not> is_idx k \<and> k \<noteq> KLength"
      with m(2) VArr show "get_own obj' k = get_own obj k" by (cases k) auto
    qed
    with m VArr show ?thesis by (auto simp: resize_length resize_nth)
  qed (use less.prems in auto)
qed

lemma array_length:
  "isArray obj \<Longrightarrow> get_own obj KLength = Some (VNum (int (length (elements obj))))"
  by (induction obj rule: isArray.induct) auto

lemma put_prop_proxy:
  "put_prop (VProxy d t) k w = Inr after \<Longrightarrow>
   \<exists>t'. proxy_set d t k w = (Inr True, t') \<and> after = VProxy d t'"
  by (auto split: prod.splits sum.splits if_splits)

subsection \<open>The traps of arrays, tuples and records\<close>

lemma nth_opt_beyond: "length xs \<le> i \<Longrightarrow> nth_opt xs i = None"
  by (induction xs i rule: nth_opt.induct) auto

lemma nth_opt_nth: "nth_opt xs i = (if i < length xs then Some (xs ! i) else None)"
  by (induction xs i rule: nth_opt.induct) auto

lemma ArrayOf_set_rejected:
  "fst (ArrayOf_set ty obj prop v) \<noteq> Inr True \<Longrightarrow> snd (ArrayOf_set ty obj prop v) = obj"
  by (auto simp: ArrayOf_set.simps split: sum.splits if_splits)

lemma TupleOf_set_rejected:
  "fst (TupleOf_set types obj prop v) \<noteq> Inr True \<Longrightarrow> snd (TupleOf_set types obj prop v) = obj"
  by (auto simp: TupleOf_set.simps split: sum.splits if_splits)

lemma RecordOf_set_rejected:
  "fst (RecordOf_set fs obj prop v) \<noteq> Inr True \<Longrightarrow> snd (RecordOf_set fs obj prop v) = obj"
  by (auto simp: RecordOf_set.simps split: sum.splits if_splits)

lemma ArrayOf_set_accepted:
  "fst (ArrayOf_set ty obj prop v) = Inr True \<Longrightarrow>
   isValid ty v = Inr True \<and>
   (\<exists>w. editValue ty v = Inr w \<and> put_prop obj prop w = Inr (snd (ArrayOf_set ty obj prop v)))"
  by (auto simp: ArrayOf_set.simps split: sum.splits if_splits)

lemma truthy_array_slot_desc:
  "slot_isValid (array_slot types prop) v = Inr b \<Longrightarrow>
   \<exists>i t. prop = KIdx i \<and> nth_opt types i = Some t \<and> array_slot types prop = SDesc t"
  by (cases "prop") (auto split: option.splits)

lemma TupleOf_set_accepted:
  "fst (TupleOf_set types obj prop v) = Inr True \<Longrightarrow>
   (\<exists>i t w. prop = KIdx i \<and> nth_opt types i = Some t \<and> isValid t v = Inr True \<and>
      editValue t v = Inr w \<and> put_prop obj prop w = Inr (snd (TupleOf_set types obj prop v)))"
proof -
  assume a: "fst (TupleOf_set types obj prop v) = Inr True"
  then obtain b where b: "slot_isValid (array_slot types prop) v = Inr b"
    by (auto simp: TupleOf_set.simps split: sum.splits if_splits)
  from truthy_array_slot_desc[OF this] obtain i t where
    it: "prop = KIdx i" "nth_opt types i = Some t" "array_slot types prop = SDesc t" by blast
  with a show ?thesis
    by (auto simp: TupleOf_set.simps split: sum.splits if_splits)
qed

lemma object_slot_desc:
  "slot_isValid (object_slot fs prop) v = Inr b \<Longrightarrow>
   \<exists>t. map_of fs prop = Some t \<and> object_slot fs prop = SDesc t"
  by (cases "prop") (auto simp: object_slot_def split: option.splits)

lemma RecordOf_set_accepted:
  "fst (RecordOf_set fs obj prop v) = Inr True \<Longrightarrow>
   (\<exists>t w. map_of fs prop = Some t \<and> isValid t v = Inr True \<and>
      editValue t v = Inr w \<and> put_prop obj prop w = Inr (snd (RecordOf_set fs obj prop v)))"
proof -
  assume a: "fst (RecordOf_set fs obj prop v) = Inr True"
  then obtain b where b: "slot_isValid (object_slot fs prop) v = Inr b"
    by (auto simp: RecordOf_set.simps split: sum.splits if_splits)
  from object_slot_desc[OF this] obtain t where
    it: "map_of fs prop = Some t" "object_slot fs prop = SDesc t" by blast
  with a show ?thesis
    by (auto simp: RecordOf_set.simps split: sum.splits if_splits)
qed

subsection \<open>The trap of unions\<close>

lemma OneOf_set_rejected:
  "fst (OneOf_set ts obj prop v) \<noteq> Inr True \<Longrightarrow> snd (OneOf_set ts obj prop v) = obj"
  by (auto simp: OneOf_set.simps split: sum.splits if_splits)

lemma OneOf_set_raises:
  "t \<in> set ts \<Longrightarrow> isl (isValid t v) \<Longrightarrow> isl (fst (OneOf_set ts obj prop v))"
proof -
  assume "t \<in> set ts" "isl (isValid t v)"
  then have "isl (filterE (\<lambda>t. isValid t v) ts)" by (rule filterE_raise)
  then show ?thesis by (auto simp: OneOf_set.simps isl_def)
qed

lemma OneOf_set_decides:
  assumes "\<forall>t\<in>set ts. \<not> isl (isValid t v)"
    and "shallow_copy obj prop v = Inr newObject"
    and "\<forall>t\<in>set ts. \<not> isl (isValid t newObject)"
  shows "OneOf_set ts obj prop v =
     (if filter (\<lambda>t. isValid t newObject = Inr True) ts = []
      then (if is_sym prop then Inl NativeTypeError else Inr False, obj)
      else if \<exists>t\<in>set (filter (\<lambda>t. isValid t newObject = Inr True) ts).
                is_composite (subtypeAt t prop)
      then (if is_sym prop
               \<or> (\<exists>t\<in>set (filter (\<lambda>t. isValid t newObject = Inr True) ts).
                     subtypeAt t prop = SUndef)
            then Inl NativeTypeError else Inr False, obj)
      else (case put_prop obj prop v of
              Inl e \<Rightarrow> (Inl e, obj)
            | Inr obj' \<Rightarrow> (Inr True, obj')))"
proof -
  have "filterE (\<lambda>t. isValid t v) ts = Inr (filter (\<lambda>t. isValid t v = Inr True) ts)"
    using assms(1) by (rule filterE_no_raise)
  moreover have "filterE (\<lambda>t. isValid t newObject) ts
      = Inr (filter (\<lambda>t. isValid t newObject = Inr True) ts)"
    using assms(3) by (rule filterE_no_raise)
  ultimately show ?thesis
    using assms(2) by (simp add: OneOf_set.simps list_ex_iff del: set_filter)
qed

subsection \<open>Elimination of overloads\<close>









subsection \<open>What tuples and records accept\<close>

text \<open>
  A tuple accepts an array when every element that is present sits at a declared
  position and is valid there; a record accepts a non-null, non-array object when
  every own key of the object is declared and its value valid. Neither asks that
  every declared position or key be present.
\<close>

lemma TupleOf_isValid_iff:
  "isValid (TupleOf i types) v = Inr True \<longleftrightarrow>
     isArray v \<and>
     (\<forall>j<length (elements v).
        case elements v ! j of
          None \<Rightarrow> True
        | Some x \<Rightarrow> (case nth_opt types j of None \<Rightarrow> False | Some t \<Rightarrow> isValid t x = Inr True))"
  by (auto simp: everyE_True split: option.splits)

lemma ownKeys_set: "set (ownKeys ps) = fst ` set ps"
  by (auto simp: ownKeys_def own_order_def)

lemma RecordOf_isValid_iff:
  "isValid (RecordOf i fs) v = Inr True \<longleftrightarrow>
     typeof v = TyObject \<and> \<not> isArray v \<and> v \<noteq> VNull \<and>
     (\<forall>k\<in>fst ` set (props v).
        case map_of fs k of
          None \<Rightarrow> False
        | Some t \<Rightarrow> isValid t (own_value (props v) k) = Inr True)"
proof -
  have key: "((case map_of fs k of
                 Some t \<Rightarrow> isValid t x
               | None \<Rightarrow> (case k of KProto s \<Rightarrow> Inl NativeTypeError | _ \<Rightarrow> Inr False))
              = Inr True)
        = (case map_of fs k of None \<Rightarrow> False | Some t \<Rightarrow> isValid t x = Inr True)" for k x
    by (cases k) (simp_all split: option.splits)
  show ?thesis
    by (simp add: everyE_True ownKeys_set key del: map_of_eq_None_iff)
qed

subsection \<open>Further facts about the registries\<close>

text \<open>
  The tuple registry tells \<^verbatim>\<open>Number\<close> from the descriptor it denotes. A record
  hint with a symbol-keyed nested record is given two different descriptors by two
  calls: \<^verbatim>\<open>deepEqual\<close> sees no entry in either object and so finds the nested
  record first. The examples of canonical construction hold on the fresh registries,
  and a union that is left with one member is that member. \<^verbatim>\<open>deepEqual\<close> answers
  \<^verbatim>\<open>true\<close> for two functions, so two record shapes that differ in the type of a
  field are given one descriptor.
\<close>

lemma tuple_of_descriptor_not_canonical:
  "(case tupleOf [HFn CNumber] registry0 of
      Inl e \<Rightarrow> False
    | Inr (d1, s1) \<Rightarrow>
        (case tupleOf [HDesc TNumber] s1 of
           Inl e \<Rightarrow> False
         | Inr (d2, s2) \<Rightarrow> d1 = TupleOf 0 [TNumber] \<and> d2 = TupleOf 1 [TNumber]))"
  by code_simp

lemma record_with_symbol_key_not_stable:
  "(case type' [HObj 1 [(KSym 0, HObj 2 [])]] registry0 of
      Inl e \<Rightarrow> False
    | Inr (d1, s1) \<Rightarrow>
        (case type' [HObj 1 [(KSym 0, HObj 2 [])]] s1 of
           Inl e \<Rightarrow> False
         | Inr (d2, s2) \<Rightarrow>
             d1 = RecordOf 1 [(KSym 0, RecordOf 0 [])] \<and> d2 = RecordOf 0 []))"
  by code_simp

lemma canonical_examples:
  "(case type' [HFn CString] registry0 of
      Inl e \<Rightarrow> False
    | Inr (d1, s1) \<Rightarrow>
        (case type' [HFn CString] s1 of Inl e \<Rightarrow> False | Inr (d2, s2) \<Rightarrow> d1 = d2))
   \<and> (case tupleOf [HFn CString, HFn CString, HFn CNumber] registry0 of
        Inl e \<Rightarrow> False
      | Inr (d1, s1) \<Rightarrow>
          (case tupleOf [HFn CString, HFn CString, HFn CNumber] s1 of
             Inl e \<Rightarrow> False
           | Inr (d2, s2) \<Rightarrow> d1 = d2))
   \<and> (case oneOf [HFn CNumber, HFn CString] registry0 of
        Inl e \<Rightarrow> False
      | Inr (d1, s1) \<Rightarrow>
          (case oneOf [HFn CString, HFn CNumber] s1 of
             Inl e \<Rightarrow> False
           | Inr (d2, s2) \<Rightarrow> d1 = d2))
   \<and> (case oneOf [HFn CNumber, HFn CNumber] registry0 of
        Inl e \<Rightarrow> False
      | Inr (d, s) \<Rightarrow> d = TNumber)"
  by code_simp

lemma OneOf_getFor_single_member:
  "sequence (map OneOf_member hints) s = Inr (mss, s1) \<Longrightarrow> dedup (concat mss) = [t] \<Longrightarrow>
   OneOf_getFor hints s = Inr (t, s1)"
  by (simp add: OneOf_getFor_def)

lemma record_registry_merges_shapes:
  "(case recordOf (HObj 1 [(KName ''a'', HFn CNumber)]) registry0 of
      Inl e \<Rightarrow> False
    | Inr (d1, s1) \<Rightarrow>
        (case recordOf (HObj 2 [(KName ''a'', HFn CString)]) s1 of
           Inl e \<Rightarrow> False
         | Inr (d2, s2) \<Rightarrow> d1 = d2 \<and> d2 = RecordOf 0 [(KName ''a'', TNumber)]))"
  by code_simp

section \<open>The properties\<close>

text \<open>
  C1 (a defect of the code). Hints that denote the same shape are to give the
  identical descriptor. \<^verbatim>\<open>TupleOf.getFor\<close> looks its registry up by the raw hints,
  before they are normalised, and a \<^verbatim>\<open>Map\<close> compares objects by identity. So
  \<^verbatim>\<open>type([[Number]])\<close>, evaluated twice from the fresh registries, finds the inner
  tuple of the first call again but allocates a second outer tuple: the two results
  have the same shape and are different objects.
\<close>

theorem type_nested_tuple_not_canonical:
  "(case type' [HArr 1 [HArr 2 [HFn CNumber]]] registry0 of
      Inl e \<Rightarrow> False
    | Inr (d1, s1) \<Rightarrow>
        (case type' [HArr 3 [HArr 4 [HFn CNumber]]] s1 of
           Inl e \<Rightarrow> False
         | Inr (d2, s2) \<Rightarrow>
             d1 = TupleOf 1 [TupleOf 0 [TNumber]] \<and> d2 = TupleOf 2 [TupleOf 0 [TNumber]]
             \<and> d1 \<noteq> d2))"
  by code_simp

text \<open>
  C2 (a defect of the code). \<^verbatim>\<open>RecordOf.isValid\<close> visits the own keys of the value
  and nothing else, so a declared key that the value lacks is never missed. For
  \<^verbatim>\<open>recordOf({a: Number})\<close> on the fresh registries the empty object is valid,
  although the declared key \<^verbatim>\<open>a\<close> is missing and its descriptor is not nullable;
  \<^verbatim>\<open>{a: 1}\<close> is valid and \<^verbatim>\<open>{a: 1, b: 2}\<close> is not.
\<close>

theorem RecordOf_accepts_missing_key:
  "(case recordOf (HObj 1 [(KName ''a'', HFn CNumber)]) registry0 of
      Inl e \<Rightarrow> False
    | Inr (d, s) \<Rightarrow>
        d = RecordOf 0 [(KName ''a'', TNumber)]
        \<and> isValid d (VObj None [] []) = Inr True
        \<and> isValid d (VObj None [] [(KName ''a'', VNum 1)]) = Inr True
        \<and> isValid d (VObj None [] [(KName ''a'', VNum 1), (KName ''b'', VNum 2)]) = Inr False)"
  by code_simp

text \<open>
  C3 (a defect of the code). \<^verbatim>\<open>TupleOf.isValid\<close> visits the elements of the value
  and nothing else, so an array shorter than the tuple is accepted. For
  \<^verbatim>\<open>tupleOf(Number, String)\<close> on the fresh registries the arrays \<^verbatim>\<open>[1]\<close> and
  \<^verbatim>\<open>[]\<close> are valid; \<^verbatim>\<open>[1, "x"]\<close> is valid and \<^verbatim>\<open>[1, "x", 2]\<close> is not.
\<close>

theorem TupleOf_accepts_shorter_array:
  "(case tupleOf [HFn CNumber, HFn CString] registry0 of
      Inl e \<Rightarrow> False
    | Inr (d, s) \<Rightarrow>
        d = TupleOf 0 [TNumber, TString]
        \<and> isValid d (VArr None [Some (VNum 1)] []) = Inr True
        \<and> isValid d (VArr None [] []) = Inr True
        \<and> isValid d (VArr None [Some (VNum 1), Some (VStr ''x'')] []) = Inr True
        \<and> isValid d (VArr None [Some (VNum 1), Some (VStr ''x''), Some (VNum 2)] []) = Inr False)"
  by code_simp

text \<open>
  C4, as amended. The trap of a union wrapper first asks every member whether the
  written value is valid and then whether the shallow copy with the write applied is
  valid. Whenever the trap does not answer \<^verbatim>\<open>true\<close>, the target is exactly as it
  was. If one of the members raises on the written value, the trap raises. If no
  member raises, on the value or on the copy, then: with no member accepting the copy
  the write is not committed, and the trap answers \<^verbatim>\<open>false\<close> when the key is no
  symbol; with an accepting member whose \<^verbatim>\<open>subtypeAt\<close> the key is an \<^verbatim>\<open>ArrayOf\<close>,
  \<^verbatim>\<open>TupleOf\<close> or \<^verbatim>\<open>RecordOf\<close> the write is not committed, and the trap answers
  \<^verbatim>\<open>false\<close> when the key is no symbol and every accepting member has a descriptor at
  the key; and otherwise it assigns the value to the target and answers \<^verbatim>\<open>true\<close>,
  unless the assignment itself raises.
\<close>

theorem OneOf_set_policy:
  "(fst (OneOf_set subTypes obj prop v) \<noteq> Inr True \<longrightarrow> snd (OneOf_set subTypes obj prop v) = obj)
   \<and> ((\<exists>t\<in>set subTypes. isl (isValid t v)) \<longrightarrow> isl (fst (OneOf_set subTypes obj prop v)))
   \<and> ((\<forall>t\<in>set subTypes. \<not> isl (isValid t v))
        \<and> shallow_copy obj prop v = Inr newObject
        \<and> (\<forall>t\<in>set subTypes. \<not> isl (isValid t newObject))
        \<and> compatible = filter (\<lambda>t. isValid t newObject = Inr True) subTypes
      \<longrightarrow>
        (compatible = [] \<longrightarrow>
           fst (OneOf_set subTypes obj prop v) \<noteq> Inr True
           \<and> (\<not> is_sym prop \<longrightarrow> fst (OneOf_set subTypes obj prop v) = Inr False))
        \<and> (compatible \<noteq> [] \<and> (\<exists>t\<in>set compatible. is_composite (subtypeAt t prop)) \<longrightarrow>
           fst (OneOf_set subTypes obj prop v) \<noteq> Inr True
           \<and> (\<not> is_sym prop \<and> (\<forall>t\<in>set compatible. subtypeAt t prop \<noteq> SUndef)
                \<longrightarrow> fst (OneOf_set subTypes obj prop v) = Inr False))
        \<and> (compatible \<noteq> [] \<and> \<not> (\<exists>t\<in>set compatible. is_composite (subtypeAt t prop)) \<longrightarrow>
           OneOf_set subTypes obj prop v =
             (case put_prop obj prop v of
                Inl e \<Rightarrow> (Inl e, obj)
              | Inr obj' \<Rightarrow> (Inr True, obj'))))"
proof (intro conjI impI)
  show "snd (OneOf_set subTypes obj prop v) = obj"
    if "fst (OneOf_set subTypes obj prop v) \<noteq> Inr True"
    using that by (rule OneOf_set_rejected)
  show "isl (fst (OneOf_set subTypes obj prop v))" if "\<exists>t\<in>set subTypes. isl (isValid t v)"
    using that OneOf_set_raises by blast
next
  assume h: "(\<forall>t\<in>set subTypes. \<not> isl (isValid t v))
        \<and> shallow_copy obj prop v = Inr newObject
        \<and> (\<forall>t\<in>set subTypes. \<not> isl (isValid t newObject))
        \<and> compatible = filter (\<lambda>t. isValid t newObject = Inr True) subTypes"
  then have d: "OneOf_set subTypes obj prop v =
     (if compatible = []
      then (if is_sym prop then Inl NativeTypeError else Inr False, obj)
      else if \<exists>t\<in>set compatible. is_composite (subtypeAt t prop)
      then (if is_sym prop \<or> (\<exists>t\<in>set compatible. subtypeAt t prop = SUndef)
            then Inl NativeTypeError else Inr False, obj)
      else (case put_prop obj prop v of
              Inl e \<Rightarrow> (Inl e, obj)
            | Inr obj' \<Rightarrow> (Inr True, obj')))"
    using OneOf_set_decides[of subTypes v obj "prop" newObject] by blast
  {
    assume "compatible = []"
    with d show "fst (OneOf_set subTypes obj prop v) \<noteq> Inr True" by simp
    assume "\<not> is_sym prop"
    with d \<open>compatible = []\<close> show "fst (OneOf_set subTypes obj prop v) = Inr False" by simp
  }
  {
    assume c: "compatible \<noteq> [] \<and> (\<exists>t\<in>set compatible. is_composite (subtypeAt t prop))"
    with d show "fst (OneOf_set subTypes obj prop v) \<noteq> Inr True" by simp
    assume "\<not> is_sym prop \<and> (\<forall>t\<in>set compatible. subtypeAt t prop \<noteq> SUndef)"
    with d c show "fst (OneOf_set subTypes obj prop v) = Inr False" by auto
  }
  {
    assume "compatible \<noteq> [] \<and> \<not> (\<exists>t\<in>set compatible. is_composite (subtypeAt t prop))"
    with d show "OneOf_set subTypes obj prop v =
             (case put_prop obj prop v of
                Inl e \<Rightarrow> (Inl e, obj)
              | Inr obj' \<Rightarrow> (Inr True, obj'))" by simp
  }
qed

text \<open>
  C4 as stated fails: the union \<^verbatim>\<open>oneOf({a: Number}, null)\<close> has the member
  \<^verbatim>\<open>Type.null\<close>, whose \<^verbatim>\<open>isValid\<close> raises. Writing \<^verbatim>\<open>a = 1\<close> through its
  wrapper of \<^verbatim>\<open>{}\<close> raises and commits nothing, although the record member accepts
  the copy \<^verbatim>\<open>{a: 1}\<close> and no member has a composite descriptor at \<^verbatim>\<open>a\<close>.
\<close>

theorem OneOf_set_null_member_counterexample:
  "(case oneOf [HObj 1 [(KName ''a'', HFn CNumber)], HNull] registry0 of
      Inl e \<Rightarrow> False
    | Inr (d, s) \<Rightarrow>
        d = OneOf 1 [RecordOf 0 [(KName ''a'', TNumber)], TNull]
        \<and> (case editValue d (VObj None [] []) of
             Inl e \<Rightarrow> False
           | Inr wrapped \<Rightarrow>
               put_prop wrapped (KName ''a'') (VNum 1) = Inl NullTypeViolation))
   \<and> OneOf_set [RecordOf 0 [(KName ''a'', TNumber)], TNull] (VObj None [] []) (KName ''a'') (VNum 1)
       = (Inl NullTypeViolation, VObj None [] [])
   \<and> shallow_copy (VObj None [] []) (KName ''a'') (VNum 1)
       = Inr (VObj None [] [(KName ''a'', VNum 1)])
   \<and> isValid (RecordOf 0 [(KName ''a'', TNumber)]) (VObj None [] [(KName ''a'', VNum 1)]) = Inr True
   \<and> \<not> is_composite (subtypeAt (RecordOf 0 [(KName ''a'', TNumber)]) (KName ''a''))
   \<and> \<not> is_composite (subtypeAt TNull (KName ''a''))"
  by code_simp

text \<open>
  C4, at a union of two records: a compatible write is committed, an incompatible
  one and an ambiguous one (an array-typed field) are refused.
\<close>

theorem OneOf_set_policy_witness:
  "OneOf_set [RecordOf 0 [(KName ''a'', TNumber)], RecordOf 1 [(KName ''b'', TString)]]
      (VObj None [] []) (KName ''a'') (VNum 1)
     = (Inr True, VObj None [] [(KName ''a'', VNum 1)])
   \<and> OneOf_set [RecordOf 0 [(KName ''a'', TNumber)], RecordOf 1 [(KName ''b'', TString)]]
      (VObj None [] []) (KName ''a'') (VStr ''x'')
     = (Inr False, VObj None [] [])
   \<and> OneOf_set [RecordOf 0 [(KName ''a'', ArrayOf 2 TNumber)], RecordOf 1 [(KName ''b'', TString)]]
      (VObj None [] []) (KName ''a'') (VArr None [] [])
     = (Inr False, VObj None [] [])"
proof -
  let ?ts = "[RecordOf 0 [(KName ''a'', TNumber)], RecordOf 1 [(KName ''b'', TString)]]"
  let ?us = "[RecordOf 0 [(KName ''a'', ArrayOf 2 TNumber)], RecordOf 1 [(KName ''b'', TString)]]"
  let ?obj = "VObj None [] []"
  have a1: "\<forall>t\<in>set ?ts. \<not> isl (isValid t (VNum 1))" by simp
  have a2: "shallow_copy ?obj (KName ''a'') (VNum 1) = Inr (VObj None [] [(KName ''a'', VNum 1)])"
    by code_simp
  have a3: "\<forall>t\<in>set ?ts. \<not> isl (isValid t (VObj None [] [(KName ''a'', VNum 1)]))"
    by (simp add: ownKeys_def own_order_def own_value_def)
  have a4: "isValid (RecordOf 0 [(KName ''a'', TNumber)]) (VObj None [] [(KName ''a'', VNum 1)])
      = Inr True" by code_simp
  have a5: "isValid (RecordOf 1 [(KName ''b'', TString)]) (VObj None [] [(KName ''a'', VNum 1)])
      = Inr False" by code_simp
  have a6: "put_prop ?obj (KName ''a'') (VNum 1) = Inr (VObj None [] [(KName ''a'', VNum 1)])"
    by code_simp
  have 1: "OneOf_set ?ts ?obj (KName ''a'') (VNum 1)
      = (Inr True, VObj None [] [(KName ''a'', VNum 1)])"
    using OneOf_set_policy[of ?ts ?obj "KName ''a''" "VNum 1" "VObj None [] [(KName ''a'', VNum 1)]"
        "[RecordOf 0 [(KName ''a'', TNumber)]]"]
      a1 a2 a3 a4 a5 a6
    by (simp add: object_slot_def)
  have 2: "OneOf_set ?ts ?obj (KName ''a'') (VStr ''x'') = (Inr False, ?obj)" by code_simp
  have 3: "OneOf_set ?us ?obj (KName ''a'') (VArr None [] []) = (Inr False, ?obj)" by code_simp
  from 1 2 3 show ?thesis by simp
qed




text \<open>
  C6, as amended. For the traps of \<^verbatim>\<open>ArrayOf\<close>, \<^verbatim>\<open>TupleOf\<close> and \<^verbatim>\<open>RecordOf\<close>,
  writes whose outcome the embedding leaves open (\<open>Unmodelled\<close>) apart.
  A write that is not accepted (the child descriptor rejects the value or raises, the
  index is beyond the arity of the tuple, the key is not declared by the record, the
  assignment to the target raises) leaves the target exactly as it was, its length
  included. A write that is accepted was valid for the child descriptor, and the trap
  has assigned the result of the child descriptor's \<^verbatim>\<open>editValue\<close> to the target at
  the written key. On a target that is no wrapper that result is then the value of the
  property (the \<^verbatim>\<open>length\<close> of an array apart); on a target that is itself a wrapper
  the assignment runs the trap of the target, which must accept it in turn (and wraps
  the value once more). No own property other than the written key changes, except on
  an array: a write at the array index \<open>n\<close> makes the length the greater of the length
  and \<open>n + 1\<close>, and an accepted write to \<^verbatim>\<open>length\<close> sets the length to the number
  that the value converts to, keeps the elements below it, removes those from it on
  and changes no other property.
\<close>

theorem composite_set_all_or_nothing:
  "(fst (ArrayOf_set ty obj prop v) \<noteq> Inr True
        \<and> fst (ArrayOf_set ty obj prop v) \<noteq> Inl Unmodelled
      \<longrightarrow> snd (ArrayOf_set ty obj prop v) = obj)
   \<and> (fst (TupleOf_set types obj prop v) \<noteq> Inr True
        \<and> fst (TupleOf_set types obj prop v) \<noteq> Inl Unmodelled
      \<longrightarrow> snd (TupleOf_set types obj prop v) = obj)
   \<and> (fst (RecordOf_set fs obj prop v) \<noteq> Inr True
        \<and> fst (RecordOf_set fs obj prop v) \<noteq> Inl Unmodelled
      \<longrightarrow> snd (RecordOf_set fs obj prop v) = obj)
   \<and> (isValid ty v = Inr False \<longrightarrow> fst (ArrayOf_set ty obj prop v) = Inr False)
   \<and> (length types \<le> i \<longrightarrow> fst (TupleOf_set types obj (KIdx i) v) = Inr False)
   \<and> (nth_opt types i = Some t \<and> isValid t v = Inr False
        \<longrightarrow> fst (TupleOf_set types obj (KIdx i) v) = Inr False)
   \<and> (map_of fs prop = None \<longrightarrow> fst (RecordOf_set fs obj prop v) \<noteq> Inr True)
   \<and> (map_of fs prop = Some t \<and> isValid t v = Inr False
        \<longrightarrow> fst (RecordOf_set fs obj prop v) = Inr False)
   \<and> (fst (ArrayOf_set ty obj prop v) = Inr True \<longrightarrow>
        isValid ty v = Inr True \<and>
        (\<exists>w. editValue ty v = Inr w
             \<and> put_prop obj prop w = Inr (snd (ArrayOf_set ty obj prop v))))
   \<and> (fst (TupleOf_set types obj prop v) = Inr True \<longrightarrow>
        (\<exists>j u w. prop = KIdx j \<and> nth_opt types j = Some u \<and> isValid u v = Inr True
             \<and> editValue u v = Inr w
             \<and> put_prop obj prop w = Inr (snd (TupleOf_set types obj prop v))))
   \<and> (fst (RecordOf_set fs obj prop v) = Inr True \<longrightarrow>
        (\<exists>u w. map_of fs prop = Some u \<and> isValid u v = Inr True
             \<and> editValue u v = Inr w
             \<and> put_prop obj prop w = Inr (snd (RecordOf_set fs obj prop v))))
   \<and> (\<forall>w obj' k. put_prop obj prop w = Inr obj' \<and> k \<noteq> prop
          \<and> (isArray obj \<longrightarrow> prop \<noteq> KLength \<and> (k = KLength \<longrightarrow> \<not> is_idx prop))
        \<longrightarrow> get_own obj' k = get_own obj k)
   \<and> (\<forall>w obj'. put_prop obj prop w = Inr obj' \<and> (\<forall>d u. obj \<noteq> VProxy d u)
          \<and> (isArray obj \<longrightarrow> prop \<noteq> KLength)
        \<longrightarrow> get_own obj' prop = Some w)
   \<and> (\<forall>d u w after. put_prop (VProxy d u) prop w = Inr after \<longrightarrow>
          (\<exists>u'. proxy_set d u prop w = (Inr True, u') \<and> after = VProxy d u'))
   \<and> (\<forall>j u. proxy_set (ArrayOf j ty) u prop v = ArrayOf_set ty u prop v
          \<and> proxy_set (TupleOf j types) u prop v = TupleOf_set types u prop v
          \<and> proxy_set (RecordOf j fs) u prop v = RecordOf_set fs u prop v)
   \<and> (\<forall>w obj' n. isArray obj \<and> put_prop obj (KIdx n) w = Inr obj' \<and> int n < 4294967295
        \<longrightarrow> get_own obj KLength = Some (VNum (int (length (elements obj))))
          \<and> get_own obj' KLength = Some (VNum (int (max (length (elements obj)) (Suc n)))))
   \<and> (\<forall>w obj'. isArray obj \<and> put_prop obj KLength w = Inr obj' \<longrightarrow>
          (\<exists>m. get_own obj' KLength = Some (VNum (int m))
             \<and> ((\<forall>d u. obj \<noteq> VProxy d u) \<longrightarrow> to_length w = Inr m)
             \<and> (\<forall>n. int n < 4294967295 \<longrightarrow>
                   get_own obj' (KIdx n) = (if n < m then get_own obj (KIdx n) else None))
             \<and> (\<forall>k. \<not> is_idx k \<and> k \<noteq> KLength \<longrightarrow> get_own obj' k = get_own obj k)))"
proof (intro conjI impI allI)
  show "snd (ArrayOf_set ty obj prop v) = obj"
    if "fst (ArrayOf_set ty obj prop v) \<noteq> Inr True
        \<and> fst (ArrayOf_set ty obj prop v) \<noteq> Inl Unmodelled"
    using that by (intro ArrayOf_set_rejected) simp
  show "snd (TupleOf_set types obj prop v) = obj"
    if "fst (TupleOf_set types obj prop v) \<noteq> Inr True
        \<and> fst (TupleOf_set types obj prop v) \<noteq> Inl Unmodelled"
    using that by (intro TupleOf_set_rejected) simp
  show "snd (RecordOf_set fs obj prop v) = obj"
    if "fst (RecordOf_set fs obj prop v) \<noteq> Inr True
        \<and> fst (RecordOf_set fs obj prop v) \<noteq> Inl Unmodelled"
    using that by (intro RecordOf_set_rejected) simp
  show "fst (ArrayOf_set ty obj prop v) = Inr False" if "isValid ty v = Inr False"
    using that by (simp add: ArrayOf_set.simps)
  show "fst (TupleOf_set types obj (KIdx i) v) = Inr False" if "length types \<le> i"
    using that by (simp add: TupleOf_set.simps nth_opt_beyond)
  show "fst (TupleOf_set types obj (KIdx i) v) = Inr False"
    if "nth_opt types i = Some t \<and> isValid t v = Inr False"
    using that by (simp add: TupleOf_set.simps)
  show "fst (RecordOf_set fs obj prop v) \<noteq> Inr True" if "map_of fs prop = None"
    using that by (cases "prop") (simp_all add: RecordOf_set.simps object_slot_def)
  show "fst (RecordOf_set fs obj prop v) = Inr False"
    if "map_of fs prop = Some t \<and> isValid t v = Inr False"
    using that by (simp add: RecordOf_set.simps object_slot_def)
  show "isValid ty v = Inr True" if "fst (ArrayOf_set ty obj prop v) = Inr True"
    using ArrayOf_set_accepted[OF that] by blast
  show "\<exists>w. editValue ty v = Inr w \<and> put_prop obj prop w = Inr (snd (ArrayOf_set ty obj prop v))"
    if "fst (ArrayOf_set ty obj prop v) = Inr True"
    using ArrayOf_set_accepted[OF that] by blast
  show "\<exists>j u w. prop = KIdx j \<and> nth_opt types j = Some u \<and> isValid u v = Inr True
             \<and> editValue u v = Inr w
             \<and> put_prop obj prop w = Inr (snd (TupleOf_set types obj prop v))"
    if "fst (TupleOf_set types obj prop v) = Inr True"
    using that by (rule TupleOf_set_accepted)
  show "\<exists>u w. map_of fs prop = Some u \<and> isValid u v = Inr True
             \<and> editValue u v = Inr w
             \<and> put_prop obj prop w = Inr (snd (RecordOf_set fs obj prop v))"
    if "fst (RecordOf_set fs obj prop v) = Inr True"
    using that by (rule RecordOf_set_accepted)
  show "get_own obj' k = get_own obj k"
    if "put_prop obj prop w = Inr obj' \<and> k \<noteq> prop
          \<and> (isArray obj \<longrightarrow> prop \<noteq> KLength \<and> (k = KLength \<longrightarrow> \<not> is_idx prop))"
    for w obj' k
    using that put_prop_frame[of obj "prop" w obj' k] by blast
  show "get_own obj' prop = Some w"
    if "put_prop obj prop w = Inr obj' \<and> (\<forall>d u. obj \<noteq> VProxy d u)
          \<and> (isArray obj \<longrightarrow> prop \<noteq> KLength)" for w obj'
    using that put_prop_stored[of obj "prop" w obj'] by blast
  show "\<exists>u'. proxy_set d u prop w = (Inr True, u') \<and> after = VProxy d u'"
    if "put_prop (VProxy d u) prop w = Inr after" for d u w after
    using that by (rule put_prop_proxy)
  show "proxy_set (ArrayOf j ty) u prop v = ArrayOf_set ty u prop v" for j u by simp
  show "proxy_set (TupleOf j types) u prop v = TupleOf_set types u prop v" for j u by simp
  show "proxy_set (RecordOf j fs) u prop v = RecordOf_set fs u prop v" for j u by simp
  show "get_own obj KLength = Some (VNum (int (length (elements obj))))"
    if "isArray obj \<and> put_prop obj (KIdx n) w = Inr obj' \<and> int n < 4294967295" for w obj' n
    using that by (simp add: array_length)
  show "get_own obj' KLength = Some (VNum (int (max (length (elements obj)) (Suc n))))"
    if "isArray obj \<and> put_prop obj (KIdx n) w = Inr obj' \<and> int n < 4294967295" for w obj' n
    using that put_prop_index_length[of obj n w obj'] by blast
  show "\<exists>m. get_own obj' KLength = Some (VNum (int m))
             \<and> ((\<forall>d u. obj \<noteq> VProxy d u) \<longrightarrow> to_length w = Inr m)
             \<and> (\<forall>n. int n < 4294967295 \<longrightarrow>
                   get_own obj' (KIdx n) = (if n < m then get_own obj (KIdx n) else None))
             \<and> (\<forall>k. \<not> is_idx k \<and> k \<noteq> KLength \<longrightarrow> get_own obj' k = get_own obj k)"
    if "isArray obj \<and> put_prop obj KLength w = Inr obj'" for w obj'
    using that put_prop_length_write[of obj w obj'] by blast
qed

text \<open>
  C6 as stated fails: \<^verbatim>\<open>length\<close> is a key like any other for the trap of
  \<^verbatim>\<open>ArrayOf\<close>. Through the wrapper that \<^verbatim>\<open>arrayOf(Number)\<close> makes of
  \<^verbatim>\<open>[1, 2, 3]\<close>, the write \<^verbatim>\<open>length = 0\<close> is accepted, \<open>0\<close> being a number, and
  the elements at the keys \<open>0\<close> to \<open>2\<close> are gone.
\<close>

theorem composite_set_length_counterexample:
  "(case arrayOf [HFn CNumber] registry0 of
      Inl e \<Rightarrow> False
    | Inr (d, s) \<Rightarrow>
        (case editValue d (VArr None [Some (VNum 1), Some (VNum 2), Some (VNum 3)] []) of
           Inl e \<Rightarrow> False
         | Inr wrapped \<Rightarrow>
             (case put_prop wrapped KLength (VNum 0) of
                Inl e \<Rightarrow> False
              | Inr after \<Rightarrow>
                  get_own wrapped (KIdx 0) = Some (VNum 1) \<and> get_own after (KIdx 0) = None
                  \<and> get_own wrapped (KIdx 2) = Some (VNum 3) \<and> get_own after (KIdx 2) = None)))"
  by code_simp

text \<open>
  C6, at an array of strings (a number is refused; a string is appended and the length
  grows to 2; the write \<^verbatim>\<open>length = "1"\<close> cuts the array), a tuple written beyond
  its arity, a record written at an undeclared key, and an array of arrays whose target
  is a wrapper already, where the stored array is wrapped twice.
\<close>

theorem composite_set_all_or_nothing_witness:
  "ArrayOf_set TString (VArr None [Some (VStr ''a'')] []) (KIdx 1) (VNum 5)
     = (Inr False, VArr None [Some (VStr ''a'')] [])
   \<and> ArrayOf_set TString (VArr None [Some (VStr ''a'')] []) (KIdx 1) (VStr ''b'')
     = (Inr True, VArr None [Some (VStr ''a''), Some (VStr ''b'')] [])
   \<and> get_own (VArr None [Some (VStr ''a''), Some (VStr ''b'')] []) KLength = Some (VNum 2)
   \<and> get_own (VArr None [Some (VStr ''a''), Some (VStr ''b'')] []) (KIdx 0)
     = get_own (VArr None [Some (VStr ''a'')] []) (KIdx 0)
   \<and> TupleOf_set [TNumber, TString] (VArr None [Some (VNum 1), Some (VStr ''x'')] []) (KIdx 2) (VNum 2)
     = (Inr False, VArr None [Some (VNum 1), Some (VStr ''x'')] [])
   \<and> RecordOf_set [(KName ''a'', TNumber)] (VObj None [] []) (KName ''c'') (VNum 1)
     = (Inr False, VObj None [] [])
   \<and> ArrayOf_set TString (VArr None [Some (VStr ''a''), Some (VStr ''b'')] []) KLength (VStr ''1'')
     = (Inr True, VArr None [Some (VStr ''a'')] [])
   \<and> ArrayOf_set (ArrayOf 0 TNumber)
        (VProxy (ArrayOf 1 (ArrayOf 0 TNumber)) (VArr None [] [])) (KIdx 0)
        (VArr None [Some (VNum 1)] [])
     = (Inr True,
        VProxy (ArrayOf 1 (ArrayOf 0 TNumber))
          (VArr None
            [Some (VProxy (ArrayOf 0 TNumber)
                    (VProxy (ArrayOf 0 TNumber) (VArr None [Some (VNum 1)] [])))] []))"
proof -
  let ?arr = "VArr None [Some (VStr ''a'')] []"
  let ?arr2 = "VArr None [Some (VStr ''a''), Some (VStr ''b'')] []"
  let ?tup = "VArr None [Some (VNum 1), Some (VStr ''x'')] []"
  note T = composite_set_all_or_nothing
  note A = T[of TString ?arr "KIdx 1" "VNum 5" "[]" "[]" 0 TNull]
  note B = T[of TString ?arr "KIdx 1" "VStr ''b''" "[]" "[]" 0 TNull]
  note C = T[of TNull ?tup "KIdx 2" "VNum 2" "[TNumber, TString]" "[]" 2 TNull]
  have 1: "fst (ArrayOf_set TString ?arr (KIdx 1) (VNum 5)) = Inr False"
    using A[THEN conjunct2, THEN conjunct2, THEN conjunct2, THEN conjunct1] by simp
  have 2: "snd (ArrayOf_set TString ?arr (KIdx 1) (VNum 5)) = ?arr"
    using A[THEN conjunct1] 1 by simp
  have 3: "ArrayOf_set TString ?arr (KIdx 1) (VStr ''b'') = (Inr True, ?arr2)"
    by code_simp
  have p: "put_prop ?arr (KIdx 1) (VStr ''b'') = Inr ?arr2"
    by code_simp
  have "\<forall>w obj' n. isArray ?arr \<and> put_prop ?arr (KIdx n) w = Inr obj' \<and> int n < 4294967295
        \<longrightarrow> get_own ?arr KLength = Some (VNum (int (length (elements ?arr))))
          \<and> get_own obj' KLength = Some (VNum (int (max (length (elements ?arr)) (Suc n))))"
    using B[THEN conjunct2, THEN conjunct2, THEN conjunct2, THEN conjunct2, THEN conjunct2,
        THEN conjunct2, THEN conjunct2, THEN conjunct2, THEN conjunct2, THEN conjunct2,
        THEN conjunct2, THEN conjunct2, THEN conjunct2, THEN conjunct2, THEN conjunct2,
        THEN conjunct1] .
  from this[rule_format, of 1 "VStr ''b''" ?arr2] p
  have 4: "get_own ?arr2 KLength = Some (VNum 2)" by simp
  have "\<forall>w obj' k. put_prop ?arr (KIdx 1) w = Inr obj' \<and> k \<noteq> KIdx 1
          \<and> (isArray ?arr \<longrightarrow> KIdx 1 \<noteq> KLength \<and> (k = KLength \<longrightarrow> \<not> is_idx (KIdx 1)))
        \<longrightarrow> get_own obj' k = get_own ?arr k"
    using B[THEN conjunct2, THEN conjunct2, THEN conjunct2, THEN conjunct2, THEN conjunct2,
        THEN conjunct2, THEN conjunct2, THEN conjunct2, THEN conjunct2, THEN conjunct2,
        THEN conjunct2, THEN conjunct1] .
  from this[rule_format, of "VStr ''b''" ?arr2 "KIdx 0"] p
  have 5: "get_own ?arr2 (KIdx 0) = get_own ?arr (KIdx 0)" by simp
  have 6: "fst (TupleOf_set [TNumber, TString] ?tup (KIdx 2) (VNum 2)) = Inr False"
    using C[THEN conjunct2, THEN conjunct2, THEN conjunct2, THEN conjunct2, THEN conjunct1]
    by simp
  have 7: "snd (TupleOf_set [TNumber, TString] ?tup (KIdx 2) (VNum 2)) = ?tup"
    using C[THEN conjunct2, THEN conjunct1] 6 by simp
  have 8: "RecordOf_set [(KName ''a'', TNumber)] (VObj None [] []) (KName ''c'') (VNum 1)
     = (Inr False, VObj None [] [])"
    by code_simp
  have 9: "ArrayOf_set TString ?arr2 KLength (VStr ''1'') = (Inr True, ?arr)"
    by code_simp
  have 10: "ArrayOf_set (ArrayOf 0 TNumber)
        (VProxy (ArrayOf 1 (ArrayOf 0 TNumber)) (VArr None [] [])) (KIdx 0)
        (VArr None [Some (VNum 1)] [])
     = (Inr True,
        VProxy (ArrayOf 1 (ArrayOf 0 TNumber))
          (VArr None
            [Some (VProxy (ArrayOf 0 TNumber)
                    (VProxy (ArrayOf 0 TNumber) (VArr None [Some (VNum 1)] [])))] []))"
    by code_simp
  from 1 2 have 12: "ArrayOf_set TString ?arr (KIdx 1) (VNum 5) = (Inr False, ?arr)"
    by (simp add: prod_eq_iff)
  from 6 7 have 67: "TupleOf_set [TNumber, TString] ?tup (KIdx 2) (VNum 2) = (Inr False, ?tup)"
    by (simp add: prod_eq_iff)
  from 12 3 4 5 67 8 9 10 show ?thesis by blast
qed

text \<open>
  C7. For every inner descriptor \<open>T\<close> and every value \<open>v\<close>, \<open>Nullable(T).isValid(v)\<close> is
  true exactly when \<open>v\<close> is \<^verbatim>\<open>null\<close>, \<open>v\<close> is \<^verbatim>\<open>undefined\<close>, or \<open>T.isValid(v)\<close> is
  true; \<^verbatim>\<open>initialize()\<close> returns \<^verbatim>\<open>null\<close>; \<^verbatim>\<open>editValue\<close> is the identity, so no
  proxy is made. For \<^verbatim>\<open>_null(Number)\<close>, built on the fresh registries: \<^verbatim>\<open>null\<close>,
  \<^verbatim>\<open>undefined\<close> and \<open>5\<close> are valid and the string \<^verbatim>\<open>"5"\<close> is not.
\<close>

theorem Nullable_contract:
  "(isValid (Nullable i T) v = Inr True \<longleftrightarrow>
      v = VNull \<or> v = VUndefined \<or> isValid T v = Inr True)
   \<and> Nullable_initialize T = VNull
   \<and> editValue (Nullable i T) v = Inr v
   \<and> (case null' (HFn CNumber) registry0 of
        Inl e \<Rightarrow> False
      | Inr (d, s) \<Rightarrow>
          isValid d VNull = Inr True \<and> isValid d VUndefined = Inr True
          \<and> isValid d (VNum 5) = Inr True \<and> isValid d (VStr ''5'') = Inr False)"
proof -
  have "case null' (HFn CNumber) registry0 of
        Inl e \<Rightarrow> False
      | Inr (d, s) \<Rightarrow>
          isValid d VNull = Inr True \<and> isValid d VUndefined = Inr True
          \<and> isValid d (VNum 5) = Inr True \<and> isValid d (VStr ''5'') = Inr False"
    by code_simp
  then show ?thesis by (simp add: Nullable_initialize_def)
qed

theorem Nullable_contract_witness:
  "isValid (Nullable 3 (ArrayOf 2 TString)) (VArr None [Some (VStr ''a'')] []) = Inr True
   \<and> isValid (Nullable 3 (ArrayOf 2 TString)) VNull = Inr True
   \<and> isValid (Nullable 3 (ArrayOf 2 TString)) (VNum 1) \<noteq> Inr True
   \<and> editValue (Nullable 3 (ArrayOf 2 TString)) (VArr None [Some (VStr ''a'')] [])
       = Inr (VArr None [Some (VStr ''a'')] [])"
  using Nullable_contract [of 3 "ArrayOf 2 TString" "VArr None [Some (VStr ''a'')] []"]
    Nullable_contract [of 3 "ArrayOf 2 TString" VNull]
    Nullable_contract [of 3 "ArrayOf 2 TString" "VNum 1"]
  by simp

text \<open>
  C8. \<^verbatim>\<open>type()\<close> without hints returns \<^verbatim>\<open>Type.null\<close>, in every state of the
  registries and without changing them, and validating any value against
  \<^verbatim>\<open>Type.null\<close> raises the module's TypeError
  (\<^verbatim>\<open>"can't set value on a type null"\<close>).
\<close>

theorem type_without_hints_is_null:
  "type' [] s = Inr (TNull, s) \<and> isValid TNull v = Inl NullTypeViolation"
  by (simp add: type'_def)

theorem type_without_hints_is_null_witness:
  "type' [] registry0 = Inr (TNull, registry0)
   \<and> isValid TNull (VObj None [] []) = Inl NullTypeViolation"
  using type_without_hints_is_null [of registry0 "VObj None [] []"] by simp

text \<open>
  C9, as amended. For an \<^verbatim>\<open>ArrayOf\<close>, \<^verbatim>\<open>TupleOf\<close> or \<^verbatim>\<open>RecordOf\<close> descriptor:
  \<^verbatim>\<open>editValue\<close> wraps every value that is an object, without asking whether it is
  valid, and the own properties of the value are read through the wrapper as they
  are; on every value that is no object (a primitive, \<^verbatim>\<open>null\<close>, \<^verbatim>\<open>undefined\<close>) it
  raises the native TypeError of \<^verbatim>\<open>new Proxy\<close>. Only a write through the wrapper is
  validated: an assignment that succeeds has passed the child descriptor's
  \<^verbatim>\<open>isValid\<close>.
\<close>

theorem editValue_wraps_without_validation:
  "d = ArrayOf i ty \<or> d = TupleOf i types \<or> d = RecordOf i fs \<longrightarrow>
     (is_object v \<longrightarrow> editValue d v = Inr (VProxy d v))
     \<and> (\<not> is_object v \<longrightarrow> editValue d v = Inl NativeTypeError)
     \<and> get_own (VProxy d v) k = get_own v k
     \<and> (\<forall>after. put_prop (VProxy (ArrayOf i ty) v) k w = Inr after \<longrightarrow> isValid ty w = Inr True)
     \<and> (\<forall>after. put_prop (VProxy (TupleOf i types) v) k w = Inr after \<longrightarrow>
           (\<exists>j u. k = KIdx j \<and> nth_opt types j = Some u \<and> isValid u w = Inr True))
     \<and> (\<forall>after. put_prop (VProxy (RecordOf i fs) v) k w = Inr after \<longrightarrow>
           (\<exists>u. map_of fs k = Some u \<and> isValid u w = Inr True))"
proof (intro impI conjI allI)
  assume a: "d = ArrayOf i ty \<or> d = TupleOf i types \<or> d = RecordOf i fs"
  show "editValue d v = Inr (VProxy d v)" if "is_object v" using a that by auto
  show "editValue d v = Inl NativeTypeError" if "\<not> is_object v" using a that by auto
  show "get_own (VProxy d v) k = get_own v k" by simp
next
  fix after
  assume "put_prop (VProxy (ArrayOf i ty) v) k w = Inr after"
  then have "fst (ArrayOf_set ty v k w) = Inr True"
    by (auto split: prod.splits sum.splits if_splits)
  from ArrayOf_set_accepted[OF this] show "isValid ty w = Inr True" by blast
next
  fix after
  assume "put_prop (VProxy (TupleOf i types) v) k w = Inr after"
  then have "fst (TupleOf_set types v k w) = Inr True"
    by (auto split: prod.splits sum.splits if_splits)
  from TupleOf_set_accepted[OF this]
  show "\<exists>j u. k = KIdx j \<and> nth_opt types j = Some u \<and> isValid u w = Inr True" by blast
next
  fix after
  assume "put_prop (VProxy (RecordOf i fs) v) k w = Inr after"
  then have "fst (RecordOf_set fs v k w) = Inr True"
    by (auto split: prod.splits sum.splits if_splits)
  from RecordOf_set_accepted[OF this]
  show "\<exists>u. map_of fs k = Some u \<and> isValid u w = Inr True" by blast
qed

text \<open>
  C9 as stated fails for the values that are no objects: for \<^verbatim>\<open>arrayOf(Number)\<close> the
  number \<open>5\<close> and the string \<^verbatim>\<open>"ab"\<close> violate the declared shape, and \<^verbatim>\<open>editValue\<close>
  does not wrap them but raises, as it does for \<^verbatim>\<open>null\<close> and \<^verbatim>\<open>undefined\<close>; so do
  the \<^verbatim>\<open>editValue\<close> of a tuple and of a record descriptor.
\<close>

theorem editValue_primitive_counterexample:
  "(case arrayOf [HFn CNumber] registry0 of
      Inl e \<Rightarrow> False
    | Inr (d, s) \<Rightarrow>
        d = ArrayOf 0 TNumber
        \<and> isValid d (VNum 5) = Inr False \<and> editValue d (VNum 5) = Inl NativeTypeError
        \<and> isValid d (VStr ''ab'') = Inr False \<and> editValue d (VStr ''ab'') = Inl NativeTypeError
        \<and> editValue d VNull = Inl NativeTypeError
        \<and> editValue d VUndefined = Inl NativeTypeError)
   \<and> isValid (TupleOf 0 [TNumber]) (VStr ''ab'') = Inr False
   \<and> editValue (TupleOf 0 [TNumber]) (VStr ''ab'') = Inl NativeTypeError
   \<and> isValid (RecordOf 0 [(KName ''a'', TNumber)]) (VNum 5) = Inr False
   \<and> editValue (RecordOf 0 [(KName ''a'', TNumber)]) (VNum 5) = Inl NativeTypeError"
  by code_simp

text \<open>
  C9, at the array \<^verbatim>\<open>["x"]\<close> and the descriptor of arrays of numbers: the array is
  invalid, is wrapped, its element is read through the wrapper, and a further string
  is refused; the boolean \<^verbatim>\<open>true\<close> is not wrapped.
\<close>

theorem editValue_wraps_without_validation_witness:
  "is_object (VArr None [Some (VStr ''x'')] [])
   \<and> isValid (ArrayOf 0 TNumber) (VArr None [Some (VStr ''x'')] []) = Inr False
   \<and> editValue (ArrayOf 0 TNumber) (VArr None [Some (VStr ''x'')] [])
       = Inr (VProxy (ArrayOf 0 TNumber) (VArr None [Some (VStr ''x'')] []))
   \<and> get_own (VProxy (ArrayOf 0 TNumber) (VArr None [Some (VStr ''x'')] [])) (KIdx 0)
       = Some (VStr ''x'')
   \<and> put_prop (VProxy (ArrayOf 0 TNumber) (VArr None [Some (VStr ''x'')] [])) (KIdx 1) (VStr ''y'')
       = Inl NativeTypeError
   \<and> \<not> is_object (VBool True)
   \<and> editValue (ArrayOf 0 TNumber) (VBool True) = Inl NativeTypeError"
proof -
  note T = editValue_wraps_without_validation
  have 1: "isValid (ArrayOf 0 TNumber) (VArr None [Some (VStr ''x'')] []) = Inr False"
    by code_simp
  have 2: "put_prop (VProxy (ArrayOf 0 TNumber) (VArr None [Some (VStr ''x'')] [])) (KIdx 1)
      (VStr ''y'') = Inl NativeTypeError"
    by code_simp
  have 3: "editValue (ArrayOf 0 TNumber) (VArr None [Some (VStr ''x'')] [])
       = Inr (VProxy (ArrayOf 0 TNumber) (VArr None [Some (VStr ''x'')] []))
     \<and> get_own (VProxy (ArrayOf 0 TNumber) (VArr None [Some (VStr ''x'')] [])) (KIdx 0)
       = Some (VStr ''x'')"
    using T[of "ArrayOf 0 TNumber" 0 TNumber "[]" "[]" "VArr None [Some (VStr ''x'')] []"
        "KIdx 0" VNull]
    by simp
  have 4: "editValue (ArrayOf 0 TNumber) (VBool True) = Inl NativeTypeError"
    using T[of "ArrayOf 0 TNumber" 0 TNumber "[]" "[]" "VBool True" "KIdx 0" VNull]
    by simp
  from 1 2 3 4 show ?thesis by simp
qed




end
